theory Spec2Isabelle
  imports Main "HOL-Library.Sublist"
begin

section \<open>Values decoded from JSON and Python dictionaries\<close>

text \<open>
  \<open>extracted_data\<close> is whatever \<open>json.loads\<close> returns, so the model carries the whole
  JSON value space. A Python \<open>dict\<close> keeps insertion order and is modelled as an
  association list; \<open>None\<close> is \<open>JNull\<close>. JSON numbers with a fraction or an exponent
  (Python floats) are not part of the model.
\<close>

datatype json =
    JNull
  | JBool bool
  | JInt int
  | JStr string
  | JList "json list"
  | JObj "(string \<times> json) list"

type_synonym pydict = "(string \<times> json) list"

text \<open>Python truth value testing, as used by \<open>if x\<close>, \<open>not x\<close>, \<open>x and y\<close>, \<open>x or y\<close>.\<close>

fun truthy :: "json \<Rightarrow> bool" where
  "truthy JNull = False"
| "truthy (JBool b) = b"
| "truthy (JInt n) = (n \<noteq> 0)"
| "truthy (JStr s) = (s \<noteq> [])"
| "truthy (JList xs) = (xs \<noteq> [])"
| "truthy (JObj kvs) = (kvs \<noteq> [])"

text \<open>\<open>d.get(k)\<close>: the value stored under \<open>k\<close>, \<open>None\<close> when the key is absent.\<close>

definition dict_get :: "pydict \<Rightarrow> string \<Rightarrow> json" where
  "dict_get d k = (case map_of d k of None \<Rightarrow> JNull | Some v \<Rightarrow> v)"

text \<open>\<open>d.get(k, default)\<close>.\<close>

definition dict_get_default :: "pydict \<Rightarrow> string \<Rightarrow> json \<Rightarrow> json" where
  "dict_get_default d k dflt = (case map_of d k of None \<Rightarrow> dflt | Some v \<Rightarrow> v)"

text \<open>\<open>d[k] = v\<close>: an existing key keeps its position, a new key goes to the end.\<close>

fun dict_set :: "pydict \<Rightarrow> string \<Rightarrow> json \<Rightarrow> pydict" where
  "dict_set [] k v = [(k, v)]"
| "dict_set (p # ps) k v = (if fst p = k then (k, v) # ps else p # dict_set ps k v)"

section \<open>Strings\<close>

text \<open>
  A Python \<open>str\<close> is modelled by its UTF-8 bytes. Characters outside ASCII (the emoji
  of the audit messages) are written byte by byte.
\<close>

definition emoji_robot :: string where
  "emoji_robot = [CHR 0xF0, CHR 0x9F, CHR 0xA4, CHR 0x96]"

definition emoji_check :: string where
  "emoji_check = [CHR 0xE2, CHR 0x9C, CHR 0x85]"

definition emoji_cross :: string where
  "emoji_cross = [CHR 0xE2, CHR 0x9D, CHR 0x8C]"

definition emoji_warning :: string where
  "emoji_warning = [CHR 0xE2, CHR 0x9A, CHR 0xA0, CHR 0xEF, CHR 0xB8, CHR 0x8F]"

definition emoji_cycle :: string where
  "emoji_cycle = [CHR 0xF0, CHR 0x9F, CHR 0x94, CHR 0x84]"

definition emoji_clipboard :: string where
  "emoji_clipboard = [CHR 0xF0, CHR 0x9F, CHR 0x93, CHR 0x8B]"

definition emoji_party :: string where
  "emoji_party = [CHR 0xF0, CHR 0x9F, CHR 0x8E, CHR 0x89]"

definition emoji_hotel :: string where
  "emoji_hotel = [CHR 0xF0, CHR 0x9F, CHR 0x8F, CHR 0xA8]"

definition emoji_calendar :: string where
  "emoji_calendar = [CHR 0xF0, CHR 0x9F, CHR 0x93, CHR 0x85]"

definition emoji_moon :: string where
  "emoji_moon = [CHR 0xF0, CHR 0x9F, CHR 0x8C, CHR 0x99]"

definition emoji_guests :: string where
  "emoji_guests = [CHR 0xF0, CHR 0x9F, CHR 0x91, CHR 0xA5]"

definition emoji_money :: string where
  "emoji_money = [CHR 0xF0, CHR 0x9F, CHR 0x92, CHR 0xB0]"

definition emoji_star :: string where
  "emoji_star = [CHR 0xE2, CHR 0xAD, CHR 0x90]"

definition emoji_chart :: string where
  "emoji_chart = [CHR 0xF0, CHR 0x9F, CHR 0x93, CHR 0x8A]"

text \<open>\<open>sep.join(xs)\<close>.\<close>

fun py_join :: "string \<Rightarrow> string list \<Rightarrow> string" where
  "py_join sep [] = []"
| "py_join sep [x] = x"
| "py_join sep (x # y # ys) = x @ sep @ py_join sep (y # ys)"

text \<open>
  \<open>s.replace(old, new)\<close> for a non-empty \<open>old\<close> (every call of the program passes a
  literal): occurrences are replaced from left to right without overlap.
\<close>

function py_replace :: "string \<Rightarrow> string \<Rightarrow> string \<Rightarrow> string" where
  "py_replace old new [] = []"
| "py_replace old new (c # cs) =
     (if old \<noteq> [] \<and> prefix old (c # cs)
      then new @ py_replace old new (drop (length old) (c # cs))
      else c # py_replace old new cs)"
  by pat_completeness auto
termination
  by (relation "measure (\<lambda>(old, new, s). length s)") auto

text \<open>
  \<open>s.strip()\<close> removes leading and trailing whitespace. Python's whitespace is the
  ASCII set (tab to carriage return, the four separators 0x1C to 0x1F, space) and the
  Unicode spaces, here in their UTF-8 encodings.
\<close>

definition ascii_space :: "char \<Rightarrow> bool" where
  "ascii_space c = (c \<in> set [CHR 0x09, CHR 0x0A, CHR 0x0B, CHR 0x0C, CHR 0x0D,
                              CHR 0x1C, CHR 0x1D, CHR 0x1E, CHR 0x1F, CHR 0x20])"

definition unicode_spaces :: "string list" where
  "unicode_spaces =
     [[CHR 0xC2, CHR 0x85], [CHR 0xC2, CHR 0xA0], [CHR 0xE1, CHR 0x9A, CHR 0x80],
      [CHR 0xE2, CHR 0x80, CHR 0x80], [CHR 0xE2, CHR 0x80, CHR 0x81],
      [CHR 0xE2, CHR 0x80, CHR 0x82], [CHR 0xE2, CHR 0x80, CHR 0x83],
      [CHR 0xE2, CHR 0x80, CHR 0x84], [CHR 0xE2, CHR 0x80, CHR 0x85],
      [CHR 0xE2, CHR 0x80, CHR 0x86], [CHR 0xE2, CHR 0x80, CHR 0x87],
      [CHR 0xE2, CHR 0x80, CHR 0x88], [CHR 0xE2, CHR 0x80, CHR 0x89],
      [CHR 0xE2, CHR 0x80, CHR 0x8A], [CHR 0xE2, CHR 0x80, CHR 0xA8],
      [CHR 0xE2, CHR 0x80, CHR 0xA9], [CHR 0xE2, CHR 0x80, CHR 0xAF],
      [CHR 0xE2, CHR 0x81, CHR 0x9F], [CHR 0xE3, CHR 0x80, CHR 0x80]]"

text \<open>The number of bytes of the whitespace character a string starts with (0: none).\<close>

definition leading_space :: "string \<Rightarrow> nat" where
  "leading_space s =
     (case s of [] \<Rightarrow> 0
      | c # _ \<Rightarrow> if ascii_space c then 1
                 else (case filter (\<lambda>w. prefix w s) unicode_spaces of [] \<Rightarrow> 0
                       | w # _ \<Rightarrow> length w))"

text \<open>The same at the end of a string.\<close>

definition trailing_space :: "string \<Rightarrow> nat" where
  "trailing_space s =
     (case rev s of [] \<Rightarrow> 0
      | c # _ \<Rightarrow> if ascii_space c then 1
                 else (case filter (\<lambda>w. suffix w s) unicode_spaces of [] \<Rightarrow> 0
                       | w # _ \<Rightarrow> length w))"

function py_lstrip :: "string \<Rightarrow> string" where
  "py_lstrip s = (if leading_space s = 0 then s else py_lstrip (drop (leading_space s) s))"
  by pat_completeness auto
termination
proof (relation "measure length")
  show "wf (measure length)" by simp
next
  fix s :: string
  assume nz: "leading_space s \<noteq> 0"
  have "leading_space s \<le> length s"
  proof (cases "filter (\<lambda>w. prefix w s) unicode_spaces")
    case Nil
    then show ?thesis by (cases s) (simp_all add: leading_space_def)
  next
    case (Cons w ws)
    then have "w \<in> set (filter (\<lambda>w. prefix w s) unicode_spaces)" by simp
    then have "prefix w s" by simp
    then have "length w \<le> length s" by (rule prefix_length_le)
    then show ?thesis using Cons by (cases s) (simp_all add: leading_space_def)
  qed
  with nz show "(drop (leading_space s) s, s) \<in> measure length" by simp
qed

function py_rstrip :: "string \<Rightarrow> string" where
  "py_rstrip s =
     (if trailing_space s = 0 then s else py_rstrip (take (length s - trailing_space s) s))"
  by pat_completeness auto
termination
proof (relation "measure length")
  show "wf (measure length)" by simp
next
  fix s :: string
  assume nz: "trailing_space s \<noteq> 0"
  have "trailing_space s \<le> length s"
  proof (cases "filter (\<lambda>w. suffix w s) unicode_spaces")
    case Nil
    then show ?thesis by (cases "rev s") (simp_all add: trailing_space_def)
  next
    case (Cons w ws)
    then have "w \<in> set (filter (\<lambda>w. suffix w s) unicode_spaces)" by simp
    then have "suffix w s" by simp
    then have "length w \<le> length s" by (rule suffix_length_le)
    then show ?thesis using Cons by (cases "rev s") (simp_all add: trailing_space_def)
  qed
  with nz show "(take (length s - trailing_space s) s, s) \<in> measure length" by simp
qed

definition py_strip :: "string \<Rightarrow> string" where
  "py_strip s = py_rstrip (py_lstrip s)"

text \<open>
  \<open>s.lower()\<close>. The program only compares the result with ASCII words, and the only
  characters whose lower case is ASCII are the ASCII letters and the Kelvin sign
  (U+212A, lower case \<open>k\<close>); the bytes of every other character stay as they are.
\<close>

definition lower_char :: "char \<Rightarrow> char" where
  "lower_char c =
     (if c \<in> set ''ABCDEFGHIJKLMNOPQRSTUVWXYZ'' then char_of (of_char c + (32::nat)) else c)"

fun py_lower :: "string \<Rightarrow> string" where
  "py_lower [] = []"
| "py_lower (c # cs) =
     (if prefix [CHR 0xE2, CHR 0x84, CHR 0xAA] (c # cs)
      then CHR ''k'' # py_lower (drop 2 cs)
      else lower_char c # py_lower cs)"

text \<open>Decimal rendering of integers, as \<open>str(n)\<close> and \<open>f"{n}"\<close> give it.\<close>

definition digit_char :: "nat \<Rightarrow> char" where
  "digit_char n = ''0123456789'' ! (n mod 10)"

function str_nat :: "nat \<Rightarrow> string" where
  "str_nat n = (if n < 10 then [digit_char n] else str_nat (n div 10) @ [digit_char n])"
  by pat_completeness auto
termination
  by (relation "measure id") auto

definition str_int :: "int \<Rightarrow> string" where
  "str_int i = (if i < 0 then CHR ''-'' # str_nat (nat (- i)) else str_nat (nat i))"

text \<open>Left padding with zeros to a width, as the \<open>%m\<close> and \<open>%d\<close> fields do.\<close>

definition zero_pad :: "nat \<Rightarrow> string \<Rightarrow> string" where
  "zero_pad w s = replicate (w - length s) CHR ''0'' @ s"

text \<open>
  The format specification \<open>,\<close> of \<open>f"{budget:,}"\<close>: the decimal digits in groups of
  three, separated by commas, after the sign.
\<close>

function group_thousands :: "string \<Rightarrow> string" where
  "group_thousands ds =
     (if length ds \<le> 3 then ds
      else group_thousands (take (length ds - 3) ds) @ CHR '','' # drop (length ds - 3) ds)"
  by pat_completeness auto
termination
  by (relation "measure length") auto

definition format_comma :: "int \<Rightarrow> string" where
  "format_comma i =
     (if i < 0 then CHR ''-'' # group_thousands (str_nat (nat (- i)))
      else group_thousands (str_nat (nat i)))"

definition is_digit :: "char \<Rightarrow> bool" where
  "is_digit c = (c \<in> set ''0123456789'')"

definition digit_val :: "char \<Rightarrow> int" where
  "digit_val c = int (of_char c) - 48"

section \<open>Calendar dates\<close>

text \<open>
  The part of Python's \<open>datetime\<close> the program uses: \<open>strptime\<close> and \<open>strftime\<close> with
  the format \<open>%Y-%m-%d\<close>, comparison, difference in days and the addition of a number
  of days. A parsed value is a date at midnight, so only the calendar date is kept.
  Dates are proleptic Gregorian, years 1 to 9999, and the arithmetic follows the
  library's own ordinal functions (day 1 is 0001-01-01).
\<close>

datatype date = Date (year: int) (month: int) (day: int)

definition is_leap :: "int \<Rightarrow> bool" where
  "is_leap y = (y mod 4 = 0 \<and> (y mod 100 \<noteq> 0 \<or> y mod 400 = 0))"

definition days_in_month :: "int \<Rightarrow> int \<Rightarrow> int" where
  "days_in_month y m =
     (if m = 2 then (if is_leap y then 29 else 28)
      else if m = 4 \<or> m = 6 \<or> m = 9 \<or> m = 11 then 30 else 31)"

definition valid_date :: "int \<Rightarrow> int \<Rightarrow> int \<Rightarrow> bool" where
  "valid_date y m d =
     (1 \<le> y \<and> y \<le> 9999 \<and> 1 \<le> m \<and> m \<le> 12 \<and> 1 \<le> d \<and> d \<le> days_in_month y m)"

definition days_before_year :: "int \<Rightarrow> int" where
  "days_before_year y = (y - 1) * 365 + (y - 1) div 4 - (y - 1) div 100 + (y - 1) div 400"

definition days_before_month_table :: "int list" where
  "days_before_month_table = [0, 0, 31, 59, 90, 120, 151, 181, 212, 243, 273, 304, 334]"

definition days_before_month :: "int \<Rightarrow> int \<Rightarrow> int" where
  "days_before_month y m =
     days_before_month_table ! nat m + (if m > 2 \<and> is_leap y then 1 else 0)"

definition toordinal :: "date \<Rightarrow> int" where
  "toordinal dt = days_before_year (year dt) + days_before_month (year dt) (month dt) + day dt"

definition max_ordinal :: int where
  "max_ordinal = 3652059"

text \<open>
  \<open>fromordinal\<close>: the 400-year, 100-year, 4-year and 1-year cycles are peeled off in
  turn; the month is estimated as \<open>(n + 50) >> 5\<close> and corrected downwards.
\<close>

definition fromordinal :: "int \<Rightarrow> date" where
  "fromordinal ord =
     (let n0 = ord - 1;
          n400 = n0 div 146097; n1 = n0 mod 146097;
          n100 = n1 div 36524; n2 = n1 mod 36524;
          n4 = n2 div 1461; n3 = n2 mod 1461;
          n1y = n3 div 365; n = n3 mod 365;
          y = n400 * 400 + 1 + n100 * 100 + n4 * 4 + n1y
      in if n1y = 4 \<or> n100 = 4 then Date (y - 1) 12 31
         else
           (let leapyear = (n1y = 3 \<and> (n4 \<noteq> 24 \<or> n100 = 3));
                m = (n + 50) div 32;
                preceding = days_before_month_table ! nat m
                            + (if m > 2 \<and> leapyear then 1 else 0)
            in if preceding > n
               then (let m' = m - 1;
                         preceding' = preceding
                           - (days_in_month 1 m' + (if m' = 2 \<and> leapyear then 1 else 0))
                     in Date y m' (n - preceding' + 1))
               else Date y m (n - preceding + 1)))"

text \<open>
  \<open>strptime(s, "%Y-%m-%d")\<close>. The library turns the format into the regular expression
  \<open>(\d\d\d\d)-(1[0-2]|0[1-9]|[1-9])-(3[0-1]|[1-2]\d|0[1-9]|[1-9]| [1-9])\<close>, matches it
  at the start of the string, rejects unconverted trailing data and then checks that
  the three numbers form a date. Every failure is a \<open>ValueError\<close>, here \<open>None\<close>.
  The model reads \<open>\d\<close> as an ASCII digit; the library's pattern also accepts the other
  Unicode decimal digits, so the model covers date strings written with ASCII digits.
\<close>

text \<open>The ways the month group can match, in the order the alternatives are tried.\<close>

definition month_matches :: "string \<Rightarrow> (int \<times> string) list" where
  "month_matches s =
     (case s of
        a # b # r \<Rightarrow>
          (if a = CHR ''1'' \<and> b \<in> set ''012'' then [(10 + digit_val b, r)] else [])
          @ (if a = CHR ''0'' \<and> b \<in> set ''123456789'' then [(digit_val b, r)] else [])
          @ (if a \<in> set ''123456789'' then [(digit_val a, b # r)] else [])
      | [a] \<Rightarrow> (if a \<in> set ''123456789'' then [(digit_val a, [])] else [])
      | [] \<Rightarrow> [])"

text \<open>The same for the day group.\<close>

definition day_matches :: "string \<Rightarrow> (int \<times> string) list" where
  "day_matches s =
     (case s of
        a # b # r \<Rightarrow>
          (if a = CHR ''3'' \<and> b \<in> set ''01'' then [(30 + digit_val b, r)] else [])
          @ (if a \<in> set ''12'' \<and> is_digit b then [(10 * digit_val a + digit_val b, r)] else [])
          @ (if a = CHR ''0'' \<and> b \<in> set ''123456789'' then [(digit_val b, r)] else [])
          @ (if a \<in> set ''123456789'' then [(digit_val a, b # r)] else [])
          @ (if a = CHR '' '' \<and> b \<in> set ''123456789'' then [(digit_val b, r)] else [])
      | [a] \<Rightarrow> (if a \<in> set ''123456789'' then [(digit_val a, [])] else [])
      | [] \<Rightarrow> [])"

definition strptime :: "string \<Rightarrow> date option" where
  "strptime s =
     (case s of
        y1 # y2 # y3 # y4 # dash # rest \<Rightarrow>
          if is_digit y1 \<and> is_digit y2 \<and> is_digit y3 \<and> is_digit y4 \<and> dash = CHR ''-''
          then (case filter (\<lambda>(m, r). r \<noteq> [] \<and> hd r = CHR ''-'' \<and> day_matches (tl r) \<noteq> [])
                       (month_matches rest) of
                  [] \<Rightarrow> None
                | (m, r) # _ \<Rightarrow>
                    (case day_matches (tl r) of
                       [] \<Rightarrow> None
                     | (d, r') # _ \<Rightarrow>
                         (let y = 1000 * digit_val y1 + 100 * digit_val y2
                                  + 10 * digit_val y3 + digit_val y4
                          in if r' = [] \<and> valid_date y m d then Some (Date y m d) else None)))
          else None
      | _ \<Rightarrow> None)"

text \<open>
  \<open>d.strftime("%Y-%m-%d")\<close>. The fields are written by the C library: month and day
  with two digits, the year (\<open>%Y\<close>) as a plain decimal number, which the GNU C library
  does not pad, so a year below 1000 has fewer than four digits.
\<close>

definition strftime :: "date \<Rightarrow> string" where
  "strftime dt =
     str_int (year dt) @ ''-'' @ zero_pad 2 (str_int (month dt)) @ ''-''
     @ zero_pad 2 (str_int (day dt))"

text \<open>\<open>datetime\<close> values compare field by field; here both times are midnight.\<close>

definition date_le :: "date \<Rightarrow> date \<Rightarrow> bool" where
  "date_le a b =
     (year a < year b
      \<or> (year a = year b \<and> (month a < month b \<or> (month a = month b \<and> day a \<le> day b))))"

section \<open>Exceptions\<close>

text \<open>
  The exceptions the nodes can meet, each with the text \<open>str(e)\<close> gives.
  \<open>CollaboratorError\<close> stands for whatever \<open>model.invoke(prompt)\<close> or
  \<open>response.content.strip()\<close> raises.
\<close>

datatype py_exn =
    AttributeError string
  | TypeError string
  | ValueError string
  | OverflowError string
  | JSONDecodeError string
  | CollaboratorError string

fun exn_str :: "py_exn \<Rightarrow> string" where
  "exn_str (AttributeError m) = m"
| "exn_str (TypeError m) = m"
| "exn_str (ValueError m) = m"
| "exn_str (OverflowError m) = m"
| "exn_str (JSONDecodeError m) = m"
| "exn_str (CollaboratorError m) = m"

fun type_name :: "json \<Rightarrow> string" where
  "type_name JNull = ''NoneType''"
| "type_name (JBool b) = ''bool''"
| "type_name (JInt n) = ''int''"
| "type_name (JStr s) = ''str''"
| "type_name (JList xs) = ''list''"
| "type_name (JObj kvs) = ''dict''"

text \<open>
  \<open>timedelta(days=nights)\<close> for a value taken from the decoded record: integers and
  booleans are numbers of days of magnitude at most 999999999, every other type is
  refused. The number of days is first converted to a C \<open>int\<close> of 32 bits, so a number
  outside that range is refused with another text than one inside it.
\<close>

fun timedelta_days :: "json \<Rightarrow> py_exn + int" where
  "timedelta_days (JInt n) =
     (if n < - 2147483648 \<or> 2147483647 < n
      then Inl (OverflowError ''Python int too large to convert to C int'')
      else if \<bar>n\<bar> > 999999999
      then Inl (OverflowError (''days='' @ str_int n @ ''; must have magnitude <= 999999999''))
      else Inr n)"
| "timedelta_days (JBool b) = Inr (if b then 1 else 0)"
| "timedelta_days v =
     Inl (TypeError (''unsupported type for timedelta days component: '' @ type_name v))"

text \<open>\<open>date + timedelta(days=n)\<close>: the result must be a date of the years 1 to 9999.\<close>

definition date_add :: "date \<Rightarrow> int \<Rightarrow> py_exn + date" where
  "date_add dt n =
     (let ord = toordinal dt + n
      in if 0 < ord \<and> ord \<le> max_ordinal then Inr (fromordinal ord)
         else Inl (OverflowError ''date value out of range''))"

text \<open>
  \<open>datetime.strptime(v, "%Y-%m-%d")\<close> on a decoded value: a non-string is a
  \<open>TypeError\<close> that names the type of the value (\<open>None\<close> by its own name), a string that
  is not a date a \<open>ValueError\<close>.
\<close>

definition strptime_value :: "json \<Rightarrow> py_exn + date" where
  "strptime_value v =
     (case v of
        JStr s \<Rightarrow>
          (case strptime s of
             None \<Rightarrow> Inl (ValueError (''time data does not match format %Y-%m-%d''))
           | Some dt \<Rightarrow> Inr dt)
      | JNull \<Rightarrow> Inl (TypeError ''strptime() argument 1 must be str, not None'')
      | _ \<Rightarrow> Inl (TypeError (''strptime() argument 1 must be str, not '' @ type_name v)))"

definition is_ValueError :: "py_exn \<Rightarrow> bool" where
  "is_ValueError e = (case e of ValueError m \<Rightarrow> True | _ \<Rightarrow> False)"

section \<open>The workflow state\<close>

text \<open>
  \<open>BookingState\<close>. Every session starts from a state that has all five keys, so the
  defaults of the \<open>state.get(key, default)\<close> calls never apply and the state is a
  record. A node returns the keys it wants to change; the graph has no reducers, so
  each returned key replaces the stored value and the other keys stay.
\<close>

record BookingState =
  user_input :: string
  extracted_data :: pydict
  iteration_count :: int
  status :: string
  messages :: "string list"

record state_update =
  upd_user_input :: "string option"
  upd_extracted_data :: "pydict option"
  upd_iteration_count :: "int option"
  upd_status :: "string option"
  upd_messages :: "string list option"

definition no_update :: state_update where
  "no_update = \<lparr>upd_user_input = None, upd_extracted_data = None,
                 upd_iteration_count = None, upd_status = None, upd_messages = None\<rparr>"

definition apply_update :: "BookingState \<Rightarrow> state_update \<Rightarrow> BookingState" where
  "apply_update s u =
     \<lparr>user_input = (case upd_user_input u of None \<Rightarrow> user_input s | Some v \<Rightarrow> v),
      extracted_data = (case upd_extracted_data u of None \<Rightarrow> extracted_data s | Some v \<Rightarrow> v),
      iteration_count = (case upd_iteration_count u of None \<Rightarrow> iteration_count s | Some v \<Rightarrow> v),
      status = (case upd_status u of None \<Rightarrow> status s | Some v \<Rightarrow> v),
      messages = (case upd_messages u of None \<Rightarrow> messages s | Some v \<Rightarrow> v)\<rparr>"

section \<open>The extraction node\<close>

text \<open>
  What the collaborator does in one call of the node: \<open>setup_gemini()\<close> returns
  \<open>None\<close>, or it returns a model whose call raises an exception with the given text
  or answers with the given text. The prompt the node builds from \<open>user_input\<close> and the
  existing \<open>extracted_data\<close> only reaches the collaborator, whose answer is arbitrary,
  so the answer is the parameter. \<open>json.loads\<close> is a parameter as well: it returns the
  decoded value or fails with the text of its \<open>JSONDecodeError\<close>.
\<close>

datatype model_call = Raises string | Content string

type_synonym gemini = "model_call option"

text \<open>The clean-up of the answer: surrounding whitespace and Markdown code fences.\<close>

definition clean_response :: "string \<Rightarrow> string" where
  "clean_response content =
     (let response_text = py_strip content
      in if prefix ''```json'' response_text
         then py_strip (py_replace ''```'' [] (py_replace ''```json'' [] response_text))
         else if prefix ''```'' response_text
         then py_strip (py_replace ''```'' [] response_text)
         else response_text)"

definition warn_checkout_invalid :: string where
  "warn_checkout_invalid =
     emoji_warning @ '' Warning: Checkout date invalid, akan diperbaiki oleh user''"

definition warn_date_format :: string where
  "warn_date_format = emoji_warning @ '' Warning: Format tanggal tidak valid''"

definition warn_checkin_format :: string where
  "warn_checkin_format = emoji_warning @ '' Warning: Format tanggal checkin tidak valid''"

text \<open>
  The first branch of the date handling: both dates are given. A \<open>ValueError\<close> of
  either \<open>strptime\<close> is caught and reported on the console; any other exception
  leaves the \<open>try\<close> block. The result is the printed lines and the record.
\<close>

definition both_dates :: "pydict \<Rightarrow> py_exn + (string list \<times> pydict)" where
  "both_dates d =
     (case strptime_value (dict_get d ''tanggal_checkin'') of
        Inl e \<Rightarrow> if is_ValueError e then Inr ([warn_date_format], d) else Inl e
      | Inr checkin_date \<Rightarrow>
          (case strptime_value (dict_get d ''tanggal_checkout'') of
             Inl e \<Rightarrow> if is_ValueError e then Inr ([warn_date_format], d) else Inl e
           | Inr checkout_date \<Rightarrow>
               if date_le checkout_date checkin_date
               then Inr ([warn_checkout_invalid], d)
               else Inr ([], dict_set d ''jumlah_malam''
                               (JInt (toordinal checkout_date - toordinal checkin_date)))))"

text \<open>The second branch: check-in and number of nights, from which check-out follows.\<close>

definition checkin_and_nights :: "pydict \<Rightarrow> py_exn + (string list \<times> pydict)" where
  "checkin_and_nights d =
     (case strptime_value (dict_get d ''tanggal_checkin'') of
        Inl e \<Rightarrow> if is_ValueError e then Inr ([warn_checkin_format], d) else Inl e
      | Inr checkin_date \<Rightarrow>
          (case timedelta_days (dict_get d ''jumlah_malam'') of
             Inl e \<Rightarrow> Inl e
           | Inr nights \<Rightarrow>
               (case date_add checkin_date nights of
                  Inl e \<Rightarrow> Inl e
                | Inr checkout_date \<Rightarrow>
                    Inr ([], dict_set d ''tanggal_checkout'' (JStr (strftime checkout_date))))))"

text \<open>
  The date handling on the decoded value. \<open>extracted_data.get\<close> exists only on a
  dictionary; on any other decoded value the first call raises \<open>AttributeError\<close>.
\<close>

definition reconcile_dates :: "json \<Rightarrow> py_exn + (string list \<times> pydict)" where
  "reconcile_dates v =
     (case v of
        JObj d \<Rightarrow>
          if truthy (dict_get d ''tanggal_checkin'') \<and> truthy (dict_get d ''tanggal_checkout'')
          then both_dates d
          else if truthy (dict_get d ''tanggal_checkin'') \<and> truthy (dict_get d ''jumlah_malam'')
          then checkin_and_nights d
          else Inr ([], d)
      | _ \<Rightarrow> Inl (AttributeError ([CHR 0x27] @ type_name v @ [CHR 0x27]
                                  @ '' object has no attribute '' @ [CHR 0x27] @ ''get''
                                  @ [CHR 0x27])))"

text \<open>The body of the \<open>try\<close> block: call, clean-up, decoding, date handling.\<close>

definition try_extract ::
    "(string \<Rightarrow> string + json) \<Rightarrow> model_call \<Rightarrow> py_exn + (string list \<times> pydict)" where
  "try_extract loads call =
     (case call of
        Raises m \<Rightarrow> Inl (CollaboratorError m)
      | Content content \<Rightarrow>
          (case loads (clean_response content) of
             Inl m \<Rightarrow> Inl (JSONDecodeError m)
           | Inr v \<Rightarrow> reconcile_dates v))"

text \<open>
  \<open>extract_data_node\<close>: the lines printed on the console and the returned update.
  No exception leaves the node: the only statements outside the \<open>try\<close> block read
  \<open>user_input\<close> and serialise the existing data, which was decoded from JSON.
\<close>

definition extract_data_node ::
    "(string \<Rightarrow> string + json) \<Rightarrow> gemini \<Rightarrow> BookingState \<Rightarrow> string list \<times> state_update" where
  "extract_data_node loads model state =
     (let banner = emoji_robot @ '' Node: Ekstraksi data dengan Gemini...''
      in case model of
           None \<Rightarrow>
             ([banner],
              no_update\<lparr>upd_extracted_data := Some [(''error'', JStr ''Gemini not available'')],
                        upd_status := Some ''error'',
                        upd_messages :=
                          Some (messages state @ [emoji_cross @ '' Gemini tidak tersedia''])\<rparr>)
         | Some call \<Rightarrow>
             (case try_extract loads call of
                Inr (printed, data) \<Rightarrow>
                  (banner # printed,
                   no_update\<lparr>upd_extracted_data := Some data,
                             upd_iteration_count := Some (iteration_count state + 1),
                             upd_status := Some ''extracted'',
                             upd_messages :=
                               Some (messages state
                                     @ [emoji_check @ '' Data diekstrak (iterasi ''
                                        @ str_int (iteration_count state + 1) @ '')''])\<rparr>)
              | Inl e \<Rightarrow>
                  ([banner, emoji_cross @ '' Error ekstraksi: '' @ exn_str e],
                   no_update\<lparr>upd_extracted_data := Some [(''error'', JStr (exn_str e))],
                             upd_status := Some ''error'',
                             upd_messages :=
                               Some (messages state @ [emoji_cross @ '' Error: '' @ exn_str e])\<rparr>)))"

section \<open>Display formatting\<close>

text \<open>\<open>x or default\<close> on decoded values.\<close>

definition py_or :: "json \<Rightarrow> json \<Rightarrow> json" where
  "py_or v dflt = (if truthy v then v else dflt)"

text \<open>
  \<open>f"Rp {budget:,}".replace(",", ".")\<close>. The grouping option is defined for numbers;
  a string refuses it with \<open>ValueError\<close>, a list or a dictionary with \<open>TypeError\<close>.
\<close>

definition rupiah :: "json \<Rightarrow> py_exn + string" where
  "rupiah budget =
     (case budget of
        JInt n \<Rightarrow> Inr (py_replace '','' ''.'' (''Rp '' @ format_comma n))
      | JBool b \<Rightarrow> Inr (py_replace '','' ''.'' (''Rp '' @ format_comma (if b then 1 else 0)))
      | JStr s \<Rightarrow> Inl (ValueError ''Cannot specify ',' with 's'.'')
      | _ \<Rightarrow> Inl (TypeError (''unsupported format string passed to '' @ type_name budget
                               @ ''.__format__'')))"

definition format_budget :: "json \<Rightarrow> py_exn + string" where
  "format_budget budget = (if \<not> truthy budget then Inr ''Tidak disebutkan'' else rupiah budget)"

definition month_names :: "string list" where
  "month_names = [''January'', ''February'', ''March'', ''April'', ''May'', ''June'', ''July'',
                  ''August'', ''September'', ''October'', ''November'', ''December'']"

definition month_mapping :: "(string \<times> string) list" where
  "month_mapping =
     [(''January'', ''Januari''), (''February'', ''Februari''), (''March'', ''Maret''),
      (''April'', ''April''), (''May'', ''Mei''), (''June'', ''Juni''),
      (''July'', ''Juli''), (''August'', ''Agustus''), (''September'', ''September''),
      (''October'', ''Oktober''), (''November'', ''November''), (''December'', ''Desember'')]"

text \<open>\<open>d.strftime("%d %B %Y")\<close> in the C locale, the year again without padding.\<close>

definition strftime_long :: "date \<Rightarrow> string" where
  "strftime_long dt =
     zero_pad 2 (str_int (day dt)) @ '' '' @ month_names ! nat (month dt - 1) @ '' ''
     @ str_int (year dt)"

text \<open>
  The display form of a date field: the Indonesian long form when the value parses,
  the value itself otherwise (the bare \<open>except\<close> catches every exception).
\<close>

definition date_display :: "json \<Rightarrow> json" where
  "date_display v =
     (case strptime_value v of
        Inl e \<Rightarrow> v
      | Inr date_obj \<Rightarrow>
          JStr (fold (\<lambda>(eng_month, ind_month) indonesian_date.
                        py_replace eng_month ind_month indonesian_date)
                     month_mapping (strftime_long date_obj)))"

definition format_display_data :: "pydict \<Rightarrow> py_exn + pydict" where
  "format_display_data data =
     (case (if truthy (dict_get data ''budget'')
            then (case rupiah (dict_get data ''budget'') of
                    Inl e \<Rightarrow> Inl e
                  | Inr budget_formatted \<Rightarrow>
                      Inr (dict_set data ''budget_display'' (JStr budget_formatted)))
            else Inr (dict_set data ''budget_display'' (JStr ''Tidak disebutkan''))) of
        Inl e \<Rightarrow> Inl e
      | Inr d1 \<Rightarrow>
          (let d2 = (if truthy (dict_get data ''tanggal_checkin'')
                     then dict_set d1 ''tanggal_checkin_display''
                            (date_display (dict_get data ''tanggal_checkin''))
                     else d1);
               d3 = (if truthy (dict_get data ''tanggal_checkout'')
                     then dict_set d2 ''tanggal_checkout_display''
                            (date_display (dict_get data ''tanggal_checkout''))
                     else d2)
           in Inr d3))"

section \<open>The review node\<close>

text \<open>
  The value handed to \<open>interrupt()\<close>, and the \<open>Command\<close> the node returns: the name of
  the next node and the update of the state.
\<close>

record interrupt_value =
  iv_message :: string
  iv_instruction :: string
  iv_extracted_data :: pydict
  iv_raw_json :: pydict
  iv_options :: "string list"

record command =
  goto :: string
  cmd_update :: state_update

text \<open>
  The node up to its call of \<open>interrupt()\<close>. Without a resume value the call suspends
  the graph and hands this value to the caller; on resumption the node starts again
  from its first line with the same state, and the call returns the human's text.
\<close>

definition human_review_interrupt :: "BookingState \<Rightarrow> py_exn + interrupt_value" where
  "human_review_interrupt state =
     (case format_display_data (extracted_data state) of
        Inl e \<Rightarrow> Inl e
      | Inr display_data \<Rightarrow>
          Inr \<lparr>iv_message = emoji_clipboard @ '' REVIEW DATA EKSTRAKSI (Iterasi ''
                              @ str_int (iteration_count state) @ '')'',
               iv_instruction = ''Silakan review data yang diekstrak AI. Ketik 'setuju' jika benar, atau berikan koreksi/tambahan.'',
               iv_extracted_data =
                 [(''lokasi'', py_or (dict_get display_data ''lokasi'') (JStr ''Belum disebutkan'')),
                  (''tanggal_checkin'',
                     py_or (dict_get display_data ''tanggal_checkin_display'')
                           (JStr ''Belum disebutkan'')),
                  (''tanggal_checkout'',
                     py_or (dict_get display_data ''tanggal_checkout_display'')
                           (JStr ''Belum disebutkan'')),
                  (''jumlah_malam'',
                     py_or (dict_get display_data ''jumlah_malam'') (JStr ''Belum disebutkan'')),
                  (''jumlah_tamu'',
                     py_or (dict_get display_data ''jumlah_tamu'') (JStr ''Belum disebutkan'')),
                  (''budget'',
                     dict_get_default display_data ''budget_display'' (JStr ''Belum disebutkan'')),
                  (''preferensi'',
                     py_or (dict_get_default display_data ''preferensi'' (JList []))
                           (JStr ''Tidak ada''))],
               iv_raw_json = extracted_data state,
               iv_options = [[CHR 0x27] @ ''setuju' - Data sudah benar'',
                             [CHR 0x27] @ ''selesai' - Lanjut ke booking'',
                             ''Atau ketik koreksi/tambahan'']\<rparr>)"

definition required_fields :: "(string \<times> string) list" where
  "required_fields =
     [(''lokasi'', ''lokasi tujuan''),
      (''tanggal_checkin'', ''tanggal check-in''),
      (''jumlah_malam'', ''jumlah malam''),
      (''jumlah_tamu'', ''jumlah tamu'')]"

text \<open>The loop over the required fields that collects the labels of the missing ones.\<close>

fun collect_missing :: "pydict \<Rightarrow> (string \<times> string) list \<Rightarrow> string list \<Rightarrow> string list" where
  "collect_missing data [] missing = missing"
| "collect_missing data ((field, label) # rest) missing =
     collect_missing data rest
       (if \<not> truthy (dict_get data field) then missing @ [label] else missing)"

text \<open>The node resumed with the human's decision.\<close>

definition human_review_node :: "BookingState \<Rightarrow> string \<Rightarrow> py_exn + command" where
  "human_review_node state human_decision =
     (case human_review_interrupt state of
        Inl e \<Rightarrow> Inl e
      | Inr shown \<Rightarrow>
          if py_lower human_decision \<in> set [''setuju'', ''ok'', ''benar'']
          then (let missing = collect_missing (extracted_data state) required_fields []
                in if missing \<noteq> []
                   then (let missing_text = py_join '', '' missing
                         in Inr \<lparr>goto = ''extract_data'',
                                 cmd_update = no_update
                                   \<lparr>upd_user_input :=
                                      Some (''Data masih kurang: '' @ missing_text
                                            @ ''. Silakan lengkapi informasi yang belum disebutkan.''),
                                    upd_messages :=
                                      Some (messages state
                                            @ [emoji_warning @ '' Data belum lengkap: ''
                                               @ missing_text])\<rparr>\<rparr>)
                   else Inr \<lparr>goto = ''finalize'', cmd_update = no_update\<rparr>)
          else if py_lower human_decision \<in> set [''selesai'', ''lanjut'']
          then Inr \<lparr>goto = ''finalize'', cmd_update = no_update\<rparr>
          else Inr \<lparr>goto = ''extract_data'',
                    cmd_update = no_update
                      \<lparr>upd_user_input := Some human_decision,
                       upd_messages :=
                         Some (messages state
                               @ [emoji_cycle @ '' Memproses input tambahan: ''
                                  @ human_decision])\<rparr>\<rparr>)"

section \<open>The finalisation node\<close>

text \<open>The characters of a string, each with all the bytes of its encoding.\<close>

function utf8_chars :: "string \<Rightarrow> string list" where
  "utf8_chars [] = []"
| "utf8_chars (c # cs) =
     (c # takeWhile (\<lambda>b. 128 \<le> (of_char b :: nat) \<and> (of_char b :: nat) < 192) cs)
     # utf8_chars (dropWhile (\<lambda>b. 128 \<le> (of_char b :: nat) \<and> (of_char b :: nat) < 192) cs)"
  by pat_completeness auto
termination
  by (relation "measure length") (auto simp: less_Suc_eq_le length_dropWhile_le)

text \<open>The first element of a list that is not a string, with its index.\<close>

fun first_non_str :: "json list \<Rightarrow> nat \<Rightarrow> (nat \<times> json) option" where
  "first_non_str [] i = None"
| "first_non_str (JStr s # vs) i = first_non_str vs (Suc i)"
| "first_non_str (v # vs) i = Some (i, v)"

fun the_str :: "json \<Rightarrow> string" where
  "the_str (JStr s) = s"
| "the_str v = []"

text \<open>
  \<open>', '.join(v)\<close> on a decoded value: the strings of a list, the characters of a
  string, the keys of a dictionary; anything else cannot be iterated, and a list
  element that is not a string is refused.
\<close>

definition join_value :: "json \<Rightarrow> py_exn + string" where
  "join_value v =
     (case v of
        JList xs \<Rightarrow>
          (case first_non_str xs 0 of
             None \<Rightarrow> Inr (py_join '', '' (map the_str xs))
           | Some (i, x) \<Rightarrow>
               Inl (TypeError (''sequence item '' @ str_nat i @ '': expected str instance, ''
                               @ type_name x @ '' found'')))
      | JStr s \<Rightarrow> Inr (py_join '', '' (utf8_chars s))
      | JObj kvs \<Rightarrow> Inr (py_join '', '' (map fst kvs))
      | _ \<Rightarrow> Inl (TypeError ''can only join an iterable''))"

text \<open>
  A replacement field \<open>{x or 'Tidak disebutkan'}\<close> of the summary. \<open>py_str\<close> is
  Python's \<open>str\<close> on decoded values, a parameter of the node.
\<close>

definition shown_or :: "(json \<Rightarrow> string) \<Rightarrow> json \<Rightarrow> string" where
  "shown_or py_str v = (if truthy v then py_str v else ''Tidak disebutkan'')"

definition summary_message ::
    "(json \<Rightarrow> string) \<Rightarrow> pydict \<Rightarrow> int \<Rightarrow> py_exn + string" where
  "summary_message py_str final_data count =
     (case format_budget (dict_get final_data ''budget'') of
        Inl e \<Rightarrow> Inl e
      | Inr budget_text \<Rightarrow>
          (case (if truthy (dict_get final_data ''preferensi'')
                 then join_value (dict_get_default final_data ''preferensi'' (JList []))
                 else Inr ''Tidak ada'') of
             Inl e \<Rightarrow> Inl e
           | Inr preferensi_text \<Rightarrow>
               Inr ([CHR 0x0A] @ emoji_party @ '' DATA BOOKING FINAL:'' @ [CHR 0x0A]
                    @ emoji_hotel @ '' Lokasi: ''
                    @ shown_or py_str (dict_get final_data ''lokasi'') @ [CHR 0x0A]
                    @ emoji_calendar @ '' Check-in: ''
                    @ shown_or py_str (dict_get final_data ''tanggal_checkin'') @ [CHR 0x0A]
                    @ emoji_calendar @ '' Check-out: ''
                    @ shown_or py_str (dict_get final_data ''tanggal_checkout'') @ [CHR 0x0A]
                    @ emoji_moon @ '' Jumlah malam: ''
                    @ shown_or py_str (dict_get final_data ''jumlah_malam'') @ [CHR 0x0A]
                    @ emoji_guests @ '' Jumlah tamu: ''
                    @ shown_or py_str (dict_get final_data ''jumlah_tamu'') @ [CHR 0x0A]
                    @ emoji_money @ '' Budget: '' @ budget_text @ [CHR 0x0A]
                    @ emoji_star @ '' Preferensi: '' @ preferensi_text @ [CHR 0x0A]
                    @ [CHR 0x0A]
                    @ emoji_chart @ '' Total iterasi HIL: '' @ str_int count @ [CHR 0x0A]
                    @ emoji_robot @ '' Model AI: Google Gemini 2.5 Flash'' @ [CHR 0x0A]
                    @ emoji_check @ '' Status: Siap untuk pencarian hotel'' @ [CHR 0x0A]
                    @ ''    '')))"

text \<open>\<open>finalize_node\<close>: the line printed on the console, and the update or the exception.\<close>

definition finalize_node ::
    "(json \<Rightarrow> string) \<Rightarrow> BookingState \<Rightarrow> string list \<times> (py_exn + state_update)" where
  "finalize_node py_str state =
     ([emoji_check @ '' Finalisasi data booking...''],
      (case summary_message py_str (extracted_data state) (iteration_count state) of
         Inl e \<Rightarrow> Inl e
       | Inr summary \<Rightarrow>
           Inr (no_update\<lparr>upd_status := Some ''completed'',
                          upd_messages := Some (messages state @ [summary])\<rparr>)))"

section \<open>The graph\<close>

text \<open>
  \<open>create_langgraph_hil\<close> wires the nodes: the start leads to \<open>extract_data\<close>,
  \<open>extract_data\<close> to \<open>human_review\<close>, \<open>human_review\<close> to the node its \<open>Command\<close> names and
  \<open>finalize\<close> to the end. A call of \<open>graph.invoke\<close> runs nodes until \<open>human_review\<close>
  suspends, the graph ends or a node raises; the checkpoint keeps the state between
  calls.
\<close>

datatype invoke_result =
    Interrupted BookingState interrupt_value
  | Ended BookingState
  | Crashed BookingState py_exn

definition enter_human_review :: "BookingState \<Rightarrow> invoke_result" where
  "enter_human_review state =
     (case human_review_interrupt state of
        Inl e \<Rightarrow> Crashed state e
      | Inr shown \<Rightarrow> Interrupted state shown)"

definition run_extract_data ::
    "(string \<Rightarrow> string + json) \<Rightarrow> gemini \<Rightarrow> BookingState \<Rightarrow> invoke_result" where
  "run_extract_data loads model state =
     enter_human_review (apply_update state (snd (extract_data_node loads model state)))"

definition run_finalize :: "(json \<Rightarrow> string) \<Rightarrow> BookingState \<Rightarrow> invoke_result" where
  "run_finalize py_str state =
     (case snd (finalize_node py_str state) of
        Inl e \<Rightarrow> Crashed state e
      | Inr u \<Rightarrow> Ended (apply_update state u))"

text \<open>\<open>graph.invoke(initial_state, config)\<close>.\<close>

definition invoke_start ::
    "(string \<Rightarrow> string + json) \<Rightarrow> gemini \<Rightarrow> BookingState \<Rightarrow> invoke_result" where
  "invoke_start loads model initial_state = run_extract_data loads model initial_state"

text \<open>
  \<open>graph.invoke(Command(resume=human_input), config)\<close> on a suspended session; \<open>model\<close>
  is what the collaborator does if this call reaches the extraction node.
\<close>

definition invoke_resume ::
    "(json \<Rightarrow> string) \<Rightarrow> (string \<Rightarrow> string + json) \<Rightarrow> gemini \<Rightarrow> BookingState \<Rightarrow> string
       \<Rightarrow> invoke_result" where
  "invoke_resume py_str loads model state human_input =
     (case human_review_node state human_input of
        Inl e \<Rightarrow> Crashed state e
      | Inr cmd \<Rightarrow>
          (let state' = apply_update state (cmd_update cmd)
           in if goto cmd = ''extract_data'' then run_extract_data loads model state'
              else run_finalize py_str state'))"

text \<open>
  The loop of \<open>run_langgraph_hil_demo\<close>: while the result is an interrupt, read the
  human's line, strip it and resume. The list holds the lines typed, each with what the
  collaborator does in that round; the loop stops early when the lines run out.
\<close>

fun resume_loop ::
    "(json \<Rightarrow> string) \<Rightarrow> (string \<Rightarrow> string + json) \<Rightarrow> invoke_result
       \<Rightarrow> (string \<times> gemini) list \<Rightarrow> invoke_result" where
  "resume_loop py_str loads (Interrupted state shown) ((line, model) # rest) =
     resume_loop py_str loads (invoke_resume py_str loads model state (py_strip line)) rest"
| "resume_loop py_str loads result rounds = result"

definition initial_state :: "string \<Rightarrow> BookingState" where
  "initial_state text =
     \<lparr>user_input = text, extracted_data = [], iteration_count = 0, status = ''start'',
      messages = []\<rparr>"

definition result_state :: "invoke_result \<Rightarrow> BookingState" where
  "result_state r =
     (case r of Interrupted s shown \<Rightarrow> s | Ended s \<Rightarrow> s | Crashed s e \<Rightarrow> s)"

section \<open>Example inputs\<close>

text \<open>
  Stand-ins for the two library functions that are parameters of the nodes, used where
  a theorem is applied to a concrete input: \<open>json.loads\<close> on an answer that decodes to
  a given value or fails with a given text, and \<open>str\<close> on the values without elements
  (a list or dictionary is shown by its brackets only).
\<close>

definition decodes_to :: "json \<Rightarrow> string \<Rightarrow> string + json" where
  "decodes_to v text = Inr v"


fun py_str_plain :: "json \<Rightarrow> string" where
  "py_str_plain JNull = ''None''"
| "py_str_plain (JBool b) = (if b then ''True'' else ''False'')"
| "py_str_plain (JInt n) = str_int n"
| "py_str_plain (JStr s) = s"
| "py_str_plain (JList xs) = ''[]''"
| "py_str_plain (JObj kvs) = ''{}''"

text \<open>A state in the middle of a session: one extraction done, the location known.\<close>

definition example_state :: BookingState where
  "example_state =
     \<lparr>user_input = ''hotel di ubud'',
      extracted_data = [(''lokasi'', JStr ''Ubud'')],
      iteration_count = 1,
      status = ''extracted'',
      messages = [emoji_check @ '' Data diekstrak (iterasi 1)'']\<rparr>"

text \<open>
  A state with the four required fields, one that lacks the location and the number of
  guests, and one in which the location is the empty string and the numbers of nights
  and guests are 0.
\<close>

definition complete_state :: BookingState where
  "complete_state =
     \<lparr>user_input = ''hotel di ubud 20-25 juni 2025 untuk 2 orang'',
      extracted_data =
        [(''lokasi'', JStr ''Ubud''), (''tanggal_checkin'', JStr ''2025-06-20''),
         (''tanggal_checkout'', JStr ''2025-06-25''), (''jumlah_malam'', JInt 5),
         (''jumlah_tamu'', JInt 2)],
      iteration_count = 1,
      status = ''extracted'',
      messages = [emoji_check @ '' Data diekstrak (iterasi 1)'']\<rparr>"

definition two_missing_state :: BookingState where
  "two_missing_state =
     complete_state\<lparr>extracted_data :=
        [(''lokasi'', JNull), (''tanggal_checkin'', JStr ''2025-06-20''),
         (''jumlah_malam'', JInt 5)]\<rparr>"

definition falsy_fields_state :: BookingState where
  "falsy_fields_state =
     complete_state\<lparr>extracted_data :=
        [(''lokasi'', JStr []), (''tanggal_checkin'', JStr ''2025-06-20''),
         (''jumlah_malam'', JInt 0), (''jumlah_tamu'', JInt 0)]\<rparr>"

text \<open>
  Decoded answers of the collaborator: one that only gives the number of guests, one
  with check-in and nights but no check-out, and one whose check-out precedes its
  check-in.
\<close>

definition guests_only_reply :: pydict where
  "guests_only_reply = [(''jumlah_tamu'', JInt 2)]"


definition reversed_dates_reply :: pydict where
  "reversed_dates_reply =
     [(''tanggal_checkin'', JStr ''2025-06-25''), (''tanggal_checkout'', JStr ''2025-06-20''),
      (''jumlah_malam'', JInt 3)]"

text \<open>
  Two answers that are JSON objects but not of the expected shape, as text and decoded:
  the budget given in words, and the check-in given as a number.
\<close>

definition budget_text_answer :: string where
  "budget_text_answer =
     ''{'' @ [CHR 0x22] @ ''budget'' @ [CHR 0x22] @ '': '' @ [CHR 0x22] @ ''2 juta'' @ [CHR 0x22]
     @ ''}''"

definition budget_text_reply :: pydict where
  "budget_text_reply = [(''budget'', JStr ''2 juta'')]"






definition zero_nights_answer :: string where
  "zero_nights_answer =
     ''{'' @ [CHR 0x22] @ ''tanggal_checkin'' @ [CHR 0x22] @ '': '' @ [CHR 0x22] @ ''2025-06-20''
     @ [CHR 0x22] @ '', '' @ [CHR 0x22] @ ''jumlah_malam'' @ [CHR 0x22] @ '': 0}''"

definition zero_nights_reply :: pydict where
  "zero_nights_reply = [(''tanggal_checkin'', JStr ''2025-06-20''), (''jumlah_malam'', JInt 0)]"

section \<open>The updates of the extraction node\<close>

lemma extract_None:
  "snd (extract_data_node loads None s) =
     no_update\<lparr>upd_extracted_data := Some [(''error'', JStr ''Gemini not available'')],
               upd_status := Some ''error'',
               upd_messages := Some (messages s @ [emoji_cross @ '' Gemini tidak tersedia''])\<rparr>"
  by (simp add: extract_data_node_def)

lemma extract_Inl:
  "try_extract loads call = Inl e \<Longrightarrow>
   snd (extract_data_node loads (Some call) s) =
     no_update\<lparr>upd_extracted_data := Some [(''error'', JStr (exn_str e))],
               upd_status := Some ''error'',
               upd_messages := Some (messages s @ [emoji_cross @ '' Error: '' @ exn_str e])\<rparr>"
  by (simp add: extract_data_node_def)

lemma extract_Inr:
  "try_extract loads call = Inr (printed, data) \<Longrightarrow>
   snd (extract_data_node loads (Some call) s) =
     no_update\<lparr>upd_extracted_data := Some data,
               upd_iteration_count := Some (iteration_count s + 1),
               upd_status := Some ''extracted'',
               upd_messages := Some (messages s @ [emoji_check @ '' Data diekstrak (iterasi ''
                                      @ str_int (iteration_count s + 1) @ '')''])\<rparr>"
  by (simp add: extract_data_node_def)

lemma extract_cases:
  obtains (unavailable) "model = None"
  | (failed) call e where "model = Some call" "try_extract loads call = Inl e"
  | (extracted) call printed data where "model = Some call"
      "try_extract loads call = Inr (printed, data)"
proof (cases model)
  case None
  then show ?thesis by (rule unavailable)
next
  case (Some call)
  show ?thesis
  proof (cases "try_extract loads call")
    case (Inl e)
    with Some show ?thesis by (rule failed)
  next
    case (Inr r)
    then have "try_extract loads call = Inr (fst r, snd r)" by simp
    with Some show ?thesis by (rule extracted)
  qed
qed

lemma strptime_Nil: "strptime [] = None"
  by (simp add: strptime_def)

lemma strptime_value_Some:
  "strptime a = Some dt \<Longrightarrow> strptime_value (JStr a) = Inr dt \<and> truthy (JStr a)"
  using strptime_Nil by (auto simp: strptime_value_def)

section \<open>The message trail\<close>

lemma extract_messages:
  "\<exists>new. messages (apply_update s (snd (extract_data_node loads model s))) = messages s @ new"
proof (cases rule: extract_cases[where model=model and loads=loads])
  case unavailable
  then show ?thesis by (simp add: extract_None apply_update_def no_update_def)
next
  case (failed call e)
  then show ?thesis by (simp add: extract_Inl apply_update_def no_update_def)
next
  case (extracted call printed data)
  then show ?thesis by (simp add: extract_Inr apply_update_def no_update_def)
qed

lemma review_messages:
  "human_review_node s d = Inr cmd \<Longrightarrow>
   \<exists>new. messages (apply_update s (cmd_update cmd)) = messages s @ new"
  by (auto simp: human_review_node_def apply_update_def no_update_def Let_def
           split: sum.splits if_splits)

lemma finalize_messages:
  "snd (finalize_node py_str s) = Inr u \<Longrightarrow>
   \<exists>new. messages (apply_update s u) = messages s @ new"
  by (auto simp: finalize_node_def apply_update_def no_update_def split: sum.splits)

text \<open>
  Claim C9. The messages are append-only: after the extraction node, after the review
  node has routed a decision and after the finalisation node, the messages of the new
  state are the messages of the old state followed by zero or more new entries.
\<close>

theorem messages_append_only:
  "(\<exists>new. messages (apply_update s (snd (extract_data_node loads model s))) = messages s @ new)
   \<and> (\<forall>cmd. human_review_node s d = Inr cmd \<longrightarrow>
         (\<exists>new. messages (apply_update s (cmd_update cmd)) = messages s @ new))
   \<and> (\<forall>u. snd (finalize_node py_str s) = Inr u \<longrightarrow>
         (\<exists>new. messages (apply_update s u) = messages s @ new))"
  using extract_messages review_messages finalize_messages by blast

theorem messages_append_only_witness:
  "(\<exists>new. messages (apply_update example_state
             (snd (extract_data_node (decodes_to (JObj [])) (Some (Content ''{}'')) example_state)))
           = messages example_state @ new)
   \<and> (\<exists>cmd. human_review_node example_state ''tambah spa'' = Inr cmd
         \<and> (\<exists>new. messages (apply_update example_state (cmd_update cmd))
                    = messages example_state @ new))
   \<and> (\<exists>u. snd (finalize_node py_str_plain example_state) = Inr u
         \<and> (\<exists>new. messages (apply_update example_state u) = messages example_state @ new))"
proof -
  have "\<not> isl (human_review_node example_state ''tambah spa'')"
    by code_simp
  then obtain cmd where c: "human_review_node example_state ''tambah spa'' = Inr cmd"
    by (cases "human_review_node example_state ''tambah spa''") auto
  have "\<not> isl (snd (finalize_node py_str_plain example_state))"
    by code_simp
  then obtain u where u: "snd (finalize_node py_str_plain example_state) = Inr u"
    by (cases "snd (finalize_node py_str_plain example_state)") auto
  show ?thesis
    using messages_append_only
      [of example_state "decodes_to (JObj [])" "Some (Content ''{}'')" "''tambah spa''"
          py_str_plain]
      c u
    by blast
qed

section \<open>The iteration count\<close>

lemma extract_status_count:
  "(status (apply_update s (snd (extract_data_node loads model s))) = ''extracted''
      \<and> iteration_count (apply_update s (snd (extract_data_node loads model s)))
          = iteration_count s + 1)
   \<or> (status (apply_update s (snd (extract_data_node loads model s))) = ''error''
      \<and> iteration_count (apply_update s (snd (extract_data_node loads model s)))
          = iteration_count s)"
proof (cases rule: extract_cases[where model=model and loads=loads])
  case unavailable
  then show ?thesis by (simp add: extract_None apply_update_def no_update_def)
next
  case (failed call e)
  then show ?thesis by (simp add: extract_Inl apply_update_def no_update_def)
next
  case (extracted call printed data)
  then show ?thesis by (simp add: extract_Inr apply_update_def no_update_def)
qed

lemma extract_error_count:
  assumes "model = None \<or> (\<exists>call e. model = Some call \<and> try_extract loads call = Inl e)"
  shows "status (apply_update s (snd (extract_data_node loads model s))) = ''error''
         \<and> iteration_count (apply_update s (snd (extract_data_node loads model s)))
             = iteration_count s"
  using assms by (auto simp: extract_None extract_Inl apply_update_def no_update_def)

lemma extract_success_count:
  assumes "model = Some call" and "try_extract loads call = Inr (printed, data)"
  shows "status (apply_update s (snd (extract_data_node loads model s))) = ''extracted''
         \<and> iteration_count (apply_update s (snd (extract_data_node loads model s)))
             = iteration_count s + 1"
  using assms by (simp add: extract_Inr apply_update_def no_update_def)

lemma review_count:
  "human_review_node s d = Inr cmd \<Longrightarrow>
   iteration_count (apply_update s (cmd_update cmd)) = iteration_count s"
  by (auto simp: human_review_node_def apply_update_def no_update_def Let_def
           split: sum.splits if_splits)

lemma finalize_count:
  "snd (finalize_node py_str s) = Inr u \<Longrightarrow>
   iteration_count (apply_update s u) = iteration_count s"
  by (auto simp: finalize_node_def apply_update_def no_update_def split: sum.splits)

lemma enter_human_review_state: "result_state (enter_human_review s) = s"
  by (simp add: enter_human_review_def result_state_def split: sum.splits)

lemma run_extract_data_state:
  "result_state (run_extract_data loads model s)
   = apply_update s (snd (extract_data_node loads model s))"
  by (simp add: run_extract_data_def enter_human_review_state)

lemma run_extract_data_count:
  "iteration_count s \<le> iteration_count (result_state (run_extract_data loads model s))"
  using extract_status_count[of s loads model] by (auto simp: run_extract_data_state)

lemma run_finalize_count:
  "iteration_count (result_state (run_finalize py_str s)) = iteration_count s"
  by (auto simp: run_finalize_def result_state_def finalize_count split: sum.splits)

lemma invoke_resume_count:
  "iteration_count s \<le> iteration_count (result_state (invoke_resume py_str loads model s d))"
proof (cases "human_review_node s d")
  case (Inl e)
  then show ?thesis by (simp add: invoke_resume_def result_state_def)
next
  case (Inr cmd)
  let ?s' = "apply_update s (cmd_update cmd)"
  have eq: "iteration_count ?s' = iteration_count s" using Inr by (rule review_count)
  show ?thesis
  proof (cases "goto cmd = ''extract_data''")
    case True
    then show ?thesis
      using Inr run_extract_data_count[of ?s' loads model] eq
      by (simp add: invoke_resume_def Let_def)
  next
    case False
    then show ?thesis
      using Inr run_finalize_count[of py_str ?s'] eq
      by (simp add: invoke_resume_def Let_def)
  qed
qed

lemma resume_loop_count:
  "iteration_count (result_state r)
   \<le> iteration_count (result_state (resume_loop py_str loads r rounds))"
proof (induction py_str loads r rounds rule: resume_loop.induct)
  case (1 py_str loads state shown line model rest)
  have "iteration_count state
        \<le> iteration_count (result_state (invoke_resume py_str loads model state (py_strip line)))"
    by (rule invoke_resume_count)
  with 1 show ?case by (simp add: result_state_def)
qed simp_all

text \<open>
  Claim C3, as amended. An extraction attempt that succeeds (status \<open>extracted\<close>)
  increments \<open>iteration_count\<close> by exactly one; an attempt that ends in an error
  (collaborator unavailable, an exception of the call, of the decoding or of the date
  handling; status \<open>error\<close>) leaves it as it was. The review node and the
  finalisation node leave it unchanged, and over the resumptions of a session it never
  decreases.
\<close>

theorem iteration_count_steps:
  "((status (apply_update s (snd (extract_data_node loads model s))) = ''extracted''
      \<and> iteration_count (apply_update s (snd (extract_data_node loads model s)))
          = iteration_count s + 1)
    \<or> (status (apply_update s (snd (extract_data_node loads model s))) = ''error''
      \<and> iteration_count (apply_update s (snd (extract_data_node loads model s)))
          = iteration_count s))
   \<and> (model = None \<or> (\<exists>call e. model = Some call \<and> try_extract loads call = Inl e) \<longrightarrow>
        status (apply_update s (snd (extract_data_node loads model s))) = ''error'')
   \<and> (\<forall>cmd. human_review_node s d = Inr cmd \<longrightarrow>
        iteration_count (apply_update s (cmd_update cmd)) = iteration_count s)
   \<and> (\<forall>u. snd (finalize_node py_str s) = Inr u \<longrightarrow>
        iteration_count (apply_update s u) = iteration_count s)
   \<and> iteration_count s
       \<le> iteration_count (result_state (resume_loop py_str loads (Interrupted s shown) rounds))"
proof (intro conjI allI impI)
  show "(status (apply_update s (snd (extract_data_node loads model s))) = ''extracted''
      \<and> iteration_count (apply_update s (snd (extract_data_node loads model s)))
          = iteration_count s + 1)
    \<or> (status (apply_update s (snd (extract_data_node loads model s))) = ''error''
      \<and> iteration_count (apply_update s (snd (extract_data_node loads model s)))
          = iteration_count s)"
    by (rule extract_status_count)
next
  assume "model = None \<or> (\<exists>call e. model = Some call \<and> try_extract loads call = Inl e)"
  then show "status (apply_update s (snd (extract_data_node loads model s))) = ''error''"
    using extract_error_count by blast
next
  fix cmd assume "human_review_node s d = Inr cmd"
  then show "iteration_count (apply_update s (cmd_update cmd)) = iteration_count s"
    by (rule review_count)
next
  fix u assume "snd (finalize_node py_str s) = Inr u"
  then show "iteration_count (apply_update s u) = iteration_count s"
    by (rule finalize_count)
next
  show "iteration_count s
       \<le> iteration_count (result_state (resume_loop py_str loads (Interrupted s shown) rounds))"
    using resume_loop_count[of "Interrupted s shown" py_str loads rounds]
    by (simp add: result_state_def)
qed


theorem iteration_count_steps_witness:
  "status (apply_update example_state
      (snd (extract_data_node (decodes_to (JObj [(''jumlah_tamu'', JInt 2)]))
              (Some (Content ''x'')) example_state))) = ''extracted''
   \<and> iteration_count (apply_update example_state
      (snd (extract_data_node (decodes_to (JObj [(''jumlah_tamu'', JInt 2)]))
              (Some (Content ''x'')) example_state))) = iteration_count example_state + 1
   \<and> status (apply_update example_state
      (snd (extract_data_node (decodes_to (JObj [])) None example_state))) = ''error''
   \<and> iteration_count (apply_update example_state
      (snd (extract_data_node (decodes_to (JObj [])) None example_state)))
       = iteration_count example_state
   \<and> (\<exists>cmd. human_review_node example_state ''setuju'' = Inr cmd
        \<and> iteration_count (apply_update example_state (cmd_update cmd))
            = iteration_count example_state)
   \<and> (\<exists>u. snd (finalize_node py_str_plain example_state) = Inr u
        \<and> iteration_count (apply_update example_state u) = iteration_count example_state)
   \<and> (\<exists>shown. human_review_interrupt example_state = Inr shown
        \<and> iteration_count example_state
            \<le> iteration_count (result_state
                (resume_loop py_str_plain (decodes_to (JObj [(''jumlah_tamu'', JInt 2)]))
                   (Interrupted example_state shown)
                   [(''2 orang'', Some (Content ''x'')), (''selesai'', None)])))"
proof -
  let ?ok = "decodes_to (JObj [(''jumlah_tamu'', JInt 2)])"
  have st: "status (apply_update example_state
      (snd (extract_data_node ?ok (Some (Content ''x'')) example_state))) = ''extracted''"
    by code_simp
  have "\<not> isl (human_review_node example_state ''setuju'')"
    by code_simp
  then obtain cmd where c: "human_review_node example_state ''setuju'' = Inr cmd"
    by (cases "human_review_node example_state ''setuju''") auto
  have "\<not> isl (snd (finalize_node py_str_plain example_state))"
    by code_simp
  then obtain u where u: "snd (finalize_node py_str_plain example_state) = Inr u"
    by (cases "snd (finalize_node py_str_plain example_state)") auto
  have "\<not> isl (human_review_interrupt example_state)"
    by code_simp
  then obtain shown where sh: "human_review_interrupt example_state = Inr shown"
    by (cases "human_review_interrupt example_state") auto
  note a = iteration_count_steps
      [of example_state ?ok "Some (Content ''x'')" "''setuju''" py_str_plain shown
          "[(''2 orang'', Some (Content ''x'')), (''selesai'', None)]"]
  note b = iteration_count_steps
      [of example_state "decodes_to (JObj [])" None "''setuju''" py_str_plain shown "[]"]
  have 1: "iteration_count (apply_update example_state
      (snd (extract_data_node ?ok (Some (Content ''x'')) example_state)))
       = iteration_count example_state + 1"
    using a st by auto
  have 2: "status (apply_update example_state
      (snd (extract_data_node (decodes_to (JObj [])) None example_state))) = ''error''"
    using b by simp
  have 3: "iteration_count (apply_update example_state
      (snd (extract_data_node (decodes_to (JObj [])) None example_state)))
       = iteration_count example_state"
    using b 2 by auto
  show ?thesis
    using st 1 2 3 a c u sh by blast
qed

text \<open>
  The claim as stated fails: an attempt in which the call of the collaborator raises
  ends with status \<open>error\<close> and the count still at 0.
\<close>

theorem iteration_count_error_counterexample:
  "status (apply_update (initial_state ''hotel di ubud'')
      (snd (extract_data_node (decodes_to (JObj [])) (Some (Raises ''503 Service Unavailable''))
              (initial_state ''hotel di ubud'')))) = ''error''
   \<and> iteration_count (apply_update (initial_state ''hotel di ubud'')
      (snd (extract_data_node (decodes_to (JObj [])) (Some (Raises ''503 Service Unavailable''))
              (initial_state ''hotel di ubud'')))) = 0
   \<and> iteration_count (apply_update (initial_state ''hotel di ubud'')
      (snd (extract_data_node (decodes_to (JObj [])) (Some (Raises ''503 Service Unavailable''))
              (initial_state ''hotel di ubud''))))
      \<noteq> iteration_count (initial_state ''hotel di ubud'') + 1"
  by (simp add: extract_data_node_def try_extract_def apply_update_def no_update_def
        initial_state_def)

section \<open>Failures of the extraction\<close>













text \<open>
  The claim as stated fails for answers that decode to a mapping of another shape than
  the expected one when the date handling does not touch the offending field. With the
  budget given in words the node stores the answer as a successful extraction: no error
  marker, no diagnostic entry; and the review node then raises in
  \<open>format_display_data\<close> before it reaches \<open>interrupt()\<close>, so that \<open>graph.invoke\<close> ends
  with the exception instead of a suspension.
\<close>

theorem unexpected_type_is_not_an_error_counterexample:
  "snd (extract_data_node (decodes_to (JObj budget_text_reply)) (Some (Content budget_text_answer))
          (initial_state ''budget 2 juta''))
     = no_update\<lparr>upd_extracted_data := Some [(''budget'', JStr ''2 juta'')],
                 upd_iteration_count := Some 1,
                 upd_status := Some ''extracted'',
                 upd_messages := Some [emoji_check @ '' Data diekstrak (iterasi 1)'']\<rparr>
   \<and> invoke_start (decodes_to (JObj budget_text_reply)) (Some (Content budget_text_answer))
          (initial_state ''budget 2 juta'')
     = Crashed \<lparr>user_input = ''budget 2 juta'',
                extracted_data = [(''budget'', JStr ''2 juta'')],
                iteration_count = 1, status = ''extracted'',
                messages = [emoji_check @ '' Data diekstrak (iterasi 1)'']\<rparr>
         (ValueError ''Cannot specify ',' with 's'.'')"
  by code_simp

section \<open>The review gate\<close>

lemma collect_missing_filter:
  "collect_missing data fs acc
   = acc @ map snd (filter (\<lambda>(field, label). \<not> truthy (dict_get data field)) fs)"
  by (induction fs arbitrary: acc) auto

lemma apply_no_update: "apply_update s no_update = s"
  by (simp add: apply_update_def no_update_def)

lemma affirm_routing:
  assumes "human_review_interrupt s = Inr shown"
      and "py_lower d \<in> set [''setuju'', ''ok'', ''benar'']"
      and "missing = map snd (filter (\<lambda>(field, label). \<not> truthy (dict_get (extracted_data s) field))
                                   required_fields)"
  shows "human_review_node s d =
           (if missing \<noteq> []
            then Inr \<lparr>goto = ''extract_data'',
                      cmd_update = no_update
                        \<lparr>upd_user_input :=
                           Some (''Data masih kurang: '' @ py_join '', '' missing
                                 @ ''. Silakan lengkapi informasi yang belum disebutkan.''),
                         upd_messages :=
                           Some (messages s @ [emoji_warning @ '' Data belum lengkap: ''
                                               @ py_join '', '' missing])\<rparr>\<rparr>
            else Inr \<lparr>goto = ''finalize'', cmd_update = no_update\<rparr>)"
  using assms
  by (simp add: human_review_node_def collect_missing_filter Let_def)

lemma invoke_resume_command:
  assumes "human_review_node s d = Inr cmd"
  shows "invoke_resume py_str loads model s d =
           (if goto cmd = ''extract_data''
            then run_extract_data loads model (apply_update s (cmd_update cmd))
            else run_finalize py_str (apply_update s (cmd_update cmd)))"
  using assms by (simp add: invoke_resume_def Let_def)

lemma missing_labels:
  "map snd (filter (\<lambda>(field, label). \<not> truthy (dict_get data field)) required_fields)
   = (if \<not> truthy (dict_get data ''lokasi'') then [''lokasi tujuan''] else [])
     @ (if \<not> truthy (dict_get data ''tanggal_checkin'') then [''tanggal check-in''] else [])
     @ (if \<not> truthy (dict_get data ''jumlah_malam'') then [''jumlah malam''] else [])
     @ (if \<not> truthy (dict_get data ''jumlah_tamu'') then [''jumlah tamu''] else [])"
  by (simp add: required_fields_def)

lemma join_missing_labels:
  "py_join '', '' ((if a then [''lokasi tujuan''] else [])
     @ (if b then [''tanggal check-in''] else [])
     @ (if c then [''jumlah malam''] else [])
     @ (if e then [''jumlah tamu''] else []))
   = (if a then ''lokasi tujuan'' else [])
     @ (if a \<and> (b \<or> c \<or> e) then '', '' else [])
     @ (if b then ''tanggal check-in'' else [])
     @ (if b \<and> (c \<or> e) then '', '' else [])
     @ (if c then ''jumlah malam'' else [])
     @ (if c \<and> e then '', '' else [])
     @ (if e then ''jumlah tamu'' else [])"
  by (cases a; cases b; cases c; cases e; simp)

lemma affirm_routing_names:
  assumes "human_review_interrupt s = Inr shown"
      and "py_lower d \<in> set [''setuju'', ''ok'', ''benar'']"
      and "no_lokasi = (\<not> truthy (dict_get (extracted_data s) ''lokasi''))"
      and "no_checkin = (\<not> truthy (dict_get (extracted_data s) ''tanggal_checkin''))"
      and "no_nights = (\<not> truthy (dict_get (extracted_data s) ''jumlah_malam''))"
      and "no_guests = (\<not> truthy (dict_get (extracted_data s) ''jumlah_tamu''))"
      and "names = (if no_lokasi then ''lokasi tujuan'' else [])
                   @ (if no_lokasi \<and> (no_checkin \<or> no_nights \<or> no_guests) then '', '' else [])
                   @ (if no_checkin then ''tanggal check-in'' else [])
                   @ (if no_checkin \<and> (no_nights \<or> no_guests) then '', '' else [])
                   @ (if no_nights then ''jumlah malam'' else [])
                   @ (if no_nights \<and> no_guests then '', '' else [])
                   @ (if no_guests then ''jumlah tamu'' else [])"
  shows "human_review_node s d =
           (if no_lokasi \<or> no_checkin \<or> no_nights \<or> no_guests
            then Inr \<lparr>goto = ''extract_data'',
                      cmd_update = no_update
                        \<lparr>upd_user_input :=
                           Some (''Data masih kurang: '' @ names
                                 @ ''. Silakan lengkapi informasi yang belum disebutkan.''),
                         upd_messages :=
                           Some (messages s @ [emoji_warning @ '' Data belum lengkap: ''
                                               @ names])\<rparr>\<rparr>
            else Inr \<lparr>goto = ''finalize'', cmd_update = no_update\<rparr>)"
proof -
  let ?missing = "map snd (filter (\<lambda>(field, label). \<not> truthy (dict_get (extracted_data s) field))
                                   required_fields)"
  have j: "py_join '', '' ?missing = names"
    unfolding missing_labels join_missing_labels assms(3-7) by simp
  have e: "(?missing \<noteq> []) = (no_lokasi \<or> no_checkin \<or> no_nights \<or> no_guests)"
    unfolding missing_labels assms(3-6) by simp
  show ?thesis
    using affirm_routing[OF assms(1,2) refl] unfolding j e .
qed

text \<open>
  Claim C4. In a state in which the review node has suspended, a decision whose lower
  case is one of \<open>setuju\<close>, \<open>ok\<close>, \<open>benar\<close> makes the node check the four required
  fields location, check-in date, nights and guest count. A field is missing when the
  gate's test \<open>not extracted_data.get(field)\<close> holds. If any field is missing, the node
  routes to the extraction node: the new \<open>user_input\<close> is the fixed sentence around the
  labels of exactly the missing fields, in the order of the fields and separated by a
  comma and a space, and the audit message appended carries the same labels. If none is
  missing, the node routes to the finalisation node and changes nothing.
\<close>

theorem affirm_checks_required_fields:
  assumes "human_review_interrupt s = Inr shown"
      and "py_lower d \<in> set [''setuju'', ''ok'', ''benar'']"
      and "no_lokasi = (\<not> truthy (dict_get (extracted_data s) ''lokasi''))"
      and "no_checkin = (\<not> truthy (dict_get (extracted_data s) ''tanggal_checkin''))"
      and "no_nights = (\<not> truthy (dict_get (extracted_data s) ''jumlah_malam''))"
      and "no_guests = (\<not> truthy (dict_get (extracted_data s) ''jumlah_tamu''))"
      and "names = (if no_lokasi then ''lokasi tujuan'' else [])
                   @ (if no_lokasi \<and> (no_checkin \<or> no_nights \<or> no_guests) then '', '' else [])
                   @ (if no_checkin then ''tanggal check-in'' else [])
                   @ (if no_checkin \<and> (no_nights \<or> no_guests) then '', '' else [])
                   @ (if no_nights then ''jumlah malam'' else [])
                   @ (if no_nights \<and> no_guests then '', '' else [])
                   @ (if no_guests then ''jumlah tamu'' else [])"
      and "ask = \<lparr>goto = ''extract_data'',
                  cmd_update = no_update
                    \<lparr>upd_user_input :=
                       Some (''Data masih kurang: '' @ names
                             @ ''. Silakan lengkapi informasi yang belum disebutkan.''),
                     upd_messages :=
                       Some (messages s @ [emoji_warning @ '' Data belum lengkap: '' @ names])\<rparr>\<rparr>"
  shows "map fst required_fields
           = [''lokasi'', ''tanggal_checkin'', ''jumlah_malam'', ''jumlah_tamu'']
         \<and> (no_lokasi \<or> no_checkin \<or> no_nights \<or> no_guests \<longrightarrow>
               human_review_node s d = Inr ask
               \<and> invoke_resume py_str loads model s d
                   = run_extract_data loads model
                       (s\<lparr>user_input := ''Data masih kurang: '' @ names
                                          @ ''. Silakan lengkapi informasi yang belum disebutkan.'',
                          messages := messages s @ [emoji_warning @ '' Data belum lengkap: ''
                                                    @ names]\<rparr>))
         \<and> (\<not> (no_lokasi \<or> no_checkin \<or> no_nights \<or> no_guests) \<longrightarrow>
               human_review_node s d = Inr \<lparr>goto = ''finalize'', cmd_update = no_update\<rparr>
               \<and> invoke_resume py_str loads model s d = run_finalize py_str s)"
proof (intro conjI impI)
  show "map fst required_fields
           = [''lokasi'', ''tanggal_checkin'', ''jumlah_malam'', ''jumlah_tamu'']"
    by (simp add: required_fields_def)
next
  assume m: "no_lokasi \<or> no_checkin \<or> no_nights \<or> no_guests"
  with affirm_routing_names[OF assms(1-7)] show r: "human_review_node s d = Inr ask"
    by (simp add: assms(8))
  show "invoke_resume py_str loads model s d
          = run_extract_data loads model
              (s\<lparr>user_input := ''Data masih kurang: '' @ names
                                 @ ''. Silakan lengkapi informasi yang belum disebutkan.'',
                 messages := messages s @ [emoji_warning @ '' Data belum lengkap: '' @ names]\<rparr>)"
  proof -
    have "apply_update s (cmd_update ask)
          = s\<lparr>user_input := ''Data masih kurang: '' @ names
                                 @ ''. Silakan lengkapi informasi yang belum disebutkan.'',
               messages := messages s @ [emoji_warning @ '' Data belum lengkap: '' @ names]\<rparr>"
      by (cases s) (simp add: assms(8) apply_update_def no_update_def)
    then show ?thesis
      using invoke_resume_command[OF r] by (simp add: assms(8))
  qed
next
  assume m: "\<not> (no_lokasi \<or> no_checkin \<or> no_nights \<or> no_guests)"
  with affirm_routing_names[OF assms(1-7)]
  show r: "human_review_node s d = Inr \<lparr>goto = ''finalize'', cmd_update = no_update\<rparr>"
    by simp
  show "invoke_resume py_str loads model s d = run_finalize py_str s"
    using invoke_resume_command[OF r] by (simp add: apply_no_update)
qed

theorem affirm_checks_required_fields_witness:
  "human_review_node two_missing_state ''Setuju'' =
     Inr \<lparr>goto = ''extract_data'',
          cmd_update = no_update
            \<lparr>upd_user_input :=
               Some ''Data masih kurang: lokasi tujuan, jumlah tamu. Silakan lengkapi informasi yang belum disebutkan.'',
             upd_messages :=
               Some (messages two_missing_state
                     @ [emoji_warning @ '' Data belum lengkap: lokasi tujuan, jumlah tamu''])\<rparr>\<rparr>
   \<and> human_review_node example_state ''benar'' =
     Inr \<lparr>goto = ''extract_data'',
          cmd_update = no_update
            \<lparr>upd_user_input :=
               Some ''Data masih kurang: tanggal check-in, jumlah malam, jumlah tamu. Silakan lengkapi informasi yang belum disebutkan.'',
             upd_messages :=
               Some (messages example_state
                     @ [emoji_warning
                        @ '' Data belum lengkap: tanggal check-in, jumlah malam, jumlah tamu''])\<rparr>\<rparr>
   \<and> human_review_node complete_state ''OK'' = Inr \<lparr>goto = ''finalize'', cmd_update = no_update\<rparr>
   \<and> invoke_resume py_str_plain (decodes_to (JObj [])) None complete_state ''OK''
       = run_finalize py_str_plain complete_state"
proof -
  have "\<not> isl (human_review_interrupt two_missing_state)" by code_simp
  then obtain shown1 where i1: "human_review_interrupt two_missing_state = Inr shown1"
    by (cases "human_review_interrupt two_missing_state") auto
  have "\<not> isl (human_review_interrupt example_state)" by code_simp
  then obtain shown2 where i2: "human_review_interrupt example_state = Inr shown2"
    by (cases "human_review_interrupt example_state") auto
  have "\<not> isl (human_review_interrupt complete_state)" by code_simp
  then obtain shown3 where i3: "human_review_interrupt complete_state = Inr shown3"
    by (cases "human_review_interrupt complete_state") auto
  have a1: "py_lower ''Setuju'' \<in> set [''setuju'', ''ok'', ''benar'']" by code_simp
  have a2: "py_lower ''benar'' \<in> set [''setuju'', ''ok'', ''benar'']" by code_simp
  have a3: "py_lower ''OK'' \<in> set [''setuju'', ''ok'', ''benar'']" by code_simp
  have l1: "True = (\<not> truthy (dict_get (extracted_data two_missing_state) ''lokasi''))"
    by code_simp
  have c1: "False = (\<not> truthy (dict_get (extracted_data two_missing_state) ''tanggal_checkin''))"
    by code_simp
  have n1: "False = (\<not> truthy (dict_get (extracted_data two_missing_state) ''jumlah_malam''))"
    by code_simp
  have g1: "True = (\<not> truthy (dict_get (extracted_data two_missing_state) ''jumlah_tamu''))"
    by code_simp
  have l2: "False = (\<not> truthy (dict_get (extracted_data example_state) ''lokasi''))"
    by code_simp
  have c2: "True = (\<not> truthy (dict_get (extracted_data example_state) ''tanggal_checkin''))"
    by code_simp
  have n2: "True = (\<not> truthy (dict_get (extracted_data example_state) ''jumlah_malam''))"
    by code_simp
  have g2: "True = (\<not> truthy (dict_get (extracted_data example_state) ''jumlah_tamu''))"
    by code_simp
  have l3: "False = (\<not> truthy (dict_get (extracted_data complete_state) ''lokasi''))"
    by code_simp
  have c3: "False = (\<not> truthy (dict_get (extracted_data complete_state) ''tanggal_checkin''))"
    by code_simp
  have n3: "False = (\<not> truthy (dict_get (extracted_data complete_state) ''jumlah_malam''))"
    by code_simp
  have g3: "False = (\<not> truthy (dict_get (extracted_data complete_state) ''jumlah_tamu''))"
    by code_simp
  from affirm_checks_required_fields[OF i1 a1 l1 c1 n1 g1 refl refl]
  have 1: "human_review_node two_missing_state ''Setuju'' =
     Inr \<lparr>goto = ''extract_data'',
          cmd_update = no_update
            \<lparr>upd_user_input :=
               Some ''Data masih kurang: lokasi tujuan, jumlah tamu. Silakan lengkapi informasi yang belum disebutkan.'',
             upd_messages :=
               Some (messages two_missing_state
                     @ [emoji_warning @ '' Data belum lengkap: lokasi tujuan, jumlah tamu''])\<rparr>\<rparr>"
    by simp
  from affirm_checks_required_fields[OF i2 a2 l2 c2 n2 g2 refl refl]
  have 2: "human_review_node example_state ''benar'' =
     Inr \<lparr>goto = ''extract_data'',
          cmd_update = no_update
            \<lparr>upd_user_input :=
               Some ''Data masih kurang: tanggal check-in, jumlah malam, jumlah tamu. Silakan lengkapi informasi yang belum disebutkan.'',
             upd_messages :=
               Some (messages example_state
                     @ [emoji_warning
                        @ '' Data belum lengkap: tanggal check-in, jumlah malam, jumlah tamu''])\<rparr>\<rparr>"
    by simp
  from affirm_checks_required_fields[OF i3 a3 l3 c3 n3 g3 refl refl,
         of py_str_plain "decodes_to (JObj [])" None]
  have 3: "human_review_node complete_state ''OK'' = Inr \<lparr>goto = ''finalize'', cmd_update = no_update\<rparr>
     \<and> invoke_resume py_str_plain (decodes_to (JObj [])) None complete_state ''OK''
       = run_finalize py_str_plain complete_state"
    by simp
  from 1 2 3 show ?thesis by simp
qed

text \<open>
  Claim C5. In every state in which the review node has suspended, whatever the
  required fields hold, a decision whose lower case is \<open>selesai\<close> or \<open>lanjut\<close> routes
  to the finalisation node with no change of the state: the required fields are not
  looked at.
\<close>

theorem finish_bypasses_completeness:
  assumes "human_review_interrupt s = Inr shown"
      and "py_lower d \<in> set [''selesai'', ''lanjut'']"
  shows "human_review_node s d = Inr \<lparr>goto = ''finalize'', cmd_update = no_update\<rparr>
         \<and> invoke_resume py_str loads model s d = run_finalize py_str s"
proof -
  have r: "human_review_node s d = Inr \<lparr>goto = ''finalize'', cmd_update = no_update\<rparr>"
    using assms by (auto simp: human_review_node_def)
  then show ?thesis using invoke_resume_command[OF r] by (simp add: apply_no_update)
qed

theorem finish_bypasses_completeness_witness:
  "collect_missing (extracted_data example_state) required_fields []
     = [''tanggal check-in'', ''jumlah malam'', ''jumlah tamu'']
   \<and> human_review_node example_state ''Selesai''
       = Inr \<lparr>goto = ''finalize'', cmd_update = no_update\<rparr>
   \<and> invoke_resume py_str_plain (decodes_to (JObj [])) None example_state ''Selesai''
       = run_finalize py_str_plain example_state"
proof -
  have "\<not> isl (human_review_interrupt example_state)" by code_simp
  then obtain shown where i: "human_review_interrupt example_state = Inr shown"
    by (cases "human_review_interrupt example_state") auto
  have a: "py_lower ''Selesai'' \<in> set [''selesai'', ''lanjut'']" by code_simp
  have m: "collect_missing (extracted_data example_state) required_fields []
     = [''tanggal check-in'', ''jumlah malam'', ''jumlah tamu'']"
    by code_simp
  from finish_bypasses_completeness[OF i a, of py_str_plain "decodes_to (JObj [])" None] m
  show ?thesis by simp
qed

text \<open>
  Claim C10. On an affirmative decision a required field with a falsy value (nights
  equal to 0, guest count equal to 0, the empty string as location) counts as missing:
  the node routes back to the extraction node, and the synthesized \<open>user_input\<close> and the
  audit message carry the labels of exactly the fields that are absent or falsy, the
  label of that field among them.
\<close>

theorem falsy_required_field_is_missing:
  assumes "human_review_interrupt s = Inr shown"
      and "py_lower d \<in> set [''setuju'', ''ok'', ''benar'']"
      and "dict_get (extracted_data s) ''jumlah_malam'' = JInt 0
           \<or> dict_get (extracted_data s) ''jumlah_tamu'' = JInt 0
           \<or> dict_get (extracted_data s) ''lokasi'' = JStr []"
      and "no_lokasi = (\<not> truthy (dict_get (extracted_data s) ''lokasi''))"
      and "no_checkin = (\<not> truthy (dict_get (extracted_data s) ''tanggal_checkin''))"
      and "no_nights = (\<not> truthy (dict_get (extracted_data s) ''jumlah_malam''))"
      and "no_guests = (\<not> truthy (dict_get (extracted_data s) ''jumlah_tamu''))"
      and "names = (if no_lokasi then ''lokasi tujuan'' else [])
                   @ (if no_lokasi \<and> (no_checkin \<or> no_nights \<or> no_guests) then '', '' else [])
                   @ (if no_checkin then ''tanggal check-in'' else [])
                   @ (if no_checkin \<and> (no_nights \<or> no_guests) then '', '' else [])
                   @ (if no_nights then ''jumlah malam'' else [])
                   @ (if no_nights \<and> no_guests then '', '' else [])
                   @ (if no_guests then ''jumlah tamu'' else [])"
  shows "(\<exists>missing.
           human_review_node s d =
             Inr \<lparr>goto = ''extract_data'',
                  cmd_update = no_update
                    \<lparr>upd_user_input :=
                       Some (''Data masih kurang: '' @ py_join '', '' missing
                             @ ''. Silakan lengkapi informasi yang belum disebutkan.''),
                     upd_messages :=
                       Some (messages s @ [emoji_warning @ '' Data belum lengkap: ''
                                           @ py_join '', '' missing])\<rparr>\<rparr>
           \<and> (dict_get (extracted_data s) ''jumlah_malam'' = JInt 0 \<longrightarrow>
                 ''jumlah malam'' \<in> set missing)
           \<and> (dict_get (extracted_data s) ''jumlah_tamu'' = JInt 0 \<longrightarrow>
                 ''jumlah tamu'' \<in> set missing)
           \<and> (dict_get (extracted_data s) ''lokasi'' = JStr [] \<longrightarrow>
                 ''lokasi tujuan'' \<in> set missing))
         \<and> human_review_node s d =
             Inr \<lparr>goto = ''extract_data'',
                  cmd_update = no_update
                    \<lparr>upd_user_input :=
                       Some (''Data masih kurang: '' @ names
                             @ ''. Silakan lengkapi informasi yang belum disebutkan.''),
                     upd_messages :=
                       Some (messages s @ [emoji_warning @ '' Data belum lengkap: ''
                                           @ names])\<rparr>\<rparr>
         \<and> (dict_get (extracted_data s) ''jumlah_malam'' = JInt 0 \<longrightarrow> no_nights)
         \<and> (dict_get (extracted_data s) ''jumlah_tamu'' = JInt 0 \<longrightarrow> no_guests)
         \<and> (dict_get (extracted_data s) ''lokasi'' = JStr [] \<longrightarrow> no_lokasi)"
proof -
  define missing where
    "missing = map snd (filter (\<lambda>(field, label). \<not> truthy (dict_get (extracted_data s) field))
                                   required_fields)"
  have a: "dict_get (extracted_data s) ''jumlah_malam'' = JInt 0 \<Longrightarrow> ''jumlah malam'' \<in> set missing"
    by (simp add: missing_def required_fields_def)
  have b: "dict_get (extracted_data s) ''jumlah_tamu'' = JInt 0 \<Longrightarrow> ''jumlah tamu'' \<in> set missing"
    by (simp add: missing_def required_fields_def)
  have c: "dict_get (extracted_data s) ''lokasi'' = JStr [] \<Longrightarrow> ''lokasi tujuan'' \<in> set missing"
    by (simp add: missing_def required_fields_def)
  from assms(3) a b c have "missing \<noteq> []" by auto
  with affirm_routing[OF assms(1,2) missing_def] a b c
  have old: "\<exists>missing.
           human_review_node s d =
             Inr \<lparr>goto = ''extract_data'',
                  cmd_update = no_update
                    \<lparr>upd_user_input :=
                       Some (''Data masih kurang: '' @ py_join '', '' missing
                             @ ''. Silakan lengkapi informasi yang belum disebutkan.''),
                     upd_messages :=
                       Some (messages s @ [emoji_warning @ '' Data belum lengkap: ''
                                           @ py_join '', '' missing])\<rparr>\<rparr>
           \<and> (dict_get (extracted_data s) ''jumlah_malam'' = JInt 0 \<longrightarrow>
                 ''jumlah malam'' \<in> set missing)
           \<and> (dict_get (extracted_data s) ''jumlah_tamu'' = JInt 0 \<longrightarrow>
                 ''jumlah tamu'' \<in> set missing)
           \<and> (dict_get (extracted_data s) ''lokasi'' = JStr [] \<longrightarrow>
                 ''lokasi tujuan'' \<in> set missing)"
    by (intro exI[of _ missing]) simp
  have f1: "dict_get (extracted_data s) ''jumlah_malam'' = JInt 0 \<longrightarrow> no_nights"
    by (simp add: assms(6))
  have f2: "dict_get (extracted_data s) ''jumlah_tamu'' = JInt 0 \<longrightarrow> no_guests"
    by (simp add: assms(7))
  have f3: "dict_get (extracted_data s) ''lokasi'' = JStr [] \<longrightarrow> no_lokasi"
    by (simp add: assms(4))
  from assms(3) f1 f2 f3 have "no_lokasi \<or> no_checkin \<or> no_nights \<or> no_guests" by blast
  with affirm_routing_names[OF assms(1,2,4-8)]
  have new: "human_review_node s d =
             Inr \<lparr>goto = ''extract_data'',
                  cmd_update = no_update
                    \<lparr>upd_user_input :=
                       Some (''Data masih kurang: '' @ names
                             @ ''. Silakan lengkapi informasi yang belum disebutkan.''),
                     upd_messages :=
                       Some (messages s @ [emoji_warning @ '' Data belum lengkap: ''
                                           @ names])\<rparr>\<rparr>"
    by simp
  from old new f1 f2 f3 show ?thesis by (intro conjI)
qed

theorem falsy_required_field_is_missing_witness:
  "dict_get (extracted_data falsy_fields_state) ''jumlah_malam'' = JInt 0
   \<and> dict_get (extracted_data falsy_fields_state) ''jumlah_tamu'' = JInt 0
   \<and> dict_get (extracted_data falsy_fields_state) ''lokasi'' = JStr []
   \<and> human_review_node falsy_fields_state ''setuju'' =
       Inr \<lparr>goto = ''extract_data'',
            cmd_update = no_update
              \<lparr>upd_user_input :=
                 Some ''Data masih kurang: lokasi tujuan, jumlah malam, jumlah tamu. Silakan lengkapi informasi yang belum disebutkan.'',
               upd_messages :=
                 Some (messages falsy_fields_state
                       @ [emoji_warning
                          @ '' Data belum lengkap: lokasi tujuan, jumlah malam, jumlah tamu''])\<rparr>\<rparr>"
proof -
  have "\<not> isl (human_review_interrupt falsy_fields_state)" by code_simp
  then obtain shown where i: "human_review_interrupt falsy_fields_state = Inr shown"
    by (cases "human_review_interrupt falsy_fields_state") auto
  have a: "py_lower ''setuju'' \<in> set [''setuju'', ''ok'', ''benar'']" by code_simp
  have z: "dict_get (extracted_data falsy_fields_state) ''jumlah_malam'' = JInt 0"
          "dict_get (extracted_data falsy_fields_state) ''jumlah_tamu'' = JInt 0"
          "dict_get (extracted_data falsy_fields_state) ''lokasi'' = JStr []"
    by code_simp+
  then have h: "dict_get (extracted_data falsy_fields_state) ''jumlah_malam'' = JInt 0
           \<or> dict_get (extracted_data falsy_fields_state) ''jumlah_tamu'' = JInt 0
           \<or> dict_get (extracted_data falsy_fields_state) ''lokasi'' = JStr []"
    by simp
  have l: "True = (\<not> truthy (dict_get (extracted_data falsy_fields_state) ''lokasi''))"
    by code_simp
  have c: "False = (\<not> truthy (dict_get (extracted_data falsy_fields_state) ''tanggal_checkin''))"
    by code_simp
  have n: "True = (\<not> truthy (dict_get (extracted_data falsy_fields_state) ''jumlah_malam''))"
    by code_simp
  have g: "True = (\<not> truthy (dict_get (extracted_data falsy_fields_state) ''jumlah_tamu''))"
    by code_simp
  from falsy_required_field_is_missing[OF i a h l c n g refl]
  have "human_review_node falsy_fields_state ''setuju'' =
       Inr \<lparr>goto = ''extract_data'',
            cmd_update = no_update
              \<lparr>upd_user_input :=
                 Some ''Data masih kurang: lokasi tujuan, jumlah malam, jumlah tamu. Silakan lengkapi informasi yang belum disebutkan.'',
               upd_messages :=
                 Some (messages falsy_fields_state
                       @ [emoji_warning
                          @ '' Data belum lengkap: lokasi tujuan, jumlah malam, jumlah tamu''])\<rparr>\<rparr>"
    by simp
  with z show ?thesis by simp
qed

section \<open>What the extraction stores\<close>

lemma dict_get_set:
  "dict_get (dict_set d k v) k' = (if k' = k then v else dict_get d k')"
  by (induction d) (auto simp: dict_get_def)

lemma both_dates_keys:
  assumes "both_dates C = Inr (printed, data)"
      and "k \<noteq> ''jumlah_malam''"
  shows "dict_get data k = dict_get C k"
  using assms
  by (auto simp: both_dates_def dict_get_set split: sum.splits if_splits)

lemma checkin_and_nights_keys:
  assumes "checkin_and_nights C = Inr (printed, data)"
      and "k \<noteq> ''tanggal_checkout''"
  shows "dict_get data k = dict_get C k"
  using assms
  by (auto simp: checkin_and_nights_def dict_get_set split: sum.splits if_splits)

lemma reconcile_dates_keys:
  assumes "reconcile_dates (JObj C) = Inr (printed, data)"
      and "k \<noteq> ''jumlah_malam''" and "k \<noteq> ''tanggal_checkout''"
  shows "dict_get data k = dict_get C k"
  using assms both_dates_keys checkin_and_nights_keys
  by (auto simp: reconcile_dates_def split: if_splits)

lemma extract_data_independent:
  "extracted_data (apply_update s (snd (extract_data_node loads model s)))
   = extracted_data (apply_update t (snd (extract_data_node loads model t)))"
proof (cases rule: extract_cases[where model=model and loads=loads])
  case unavailable
  then show ?thesis by (simp add: extract_None apply_update_def no_update_def)
next
  case (failed call e)
  then show ?thesis by (simp add: extract_Inl apply_update_def no_update_def)
next
  case (extracted call printed data)
  then show ?thesis by (simp add: extract_Inr apply_update_def no_update_def)
qed

lemma extract_candidate_fields:
  assumes "model = Some (Content c)" and "loads (clean_response c) = Inr (JObj C)"
      and "status (apply_update s (snd (extract_data_node loads model s))) = ''extracted''"
      and "k \<noteq> ''jumlah_malam''" and "k \<noteq> ''tanggal_checkout''"
  shows "dict_get (extracted_data (apply_update s (snd (extract_data_node loads model s)))) k
         = dict_get C k"
proof (cases "try_extract loads (Content c)")
  case (Inl e)
  then show ?thesis using assms(1,3) by (simp add: extract_Inl apply_update_def no_update_def)
next
  case (Inr r)
  then have t: "try_extract loads (Content c) = Inr (fst r, snd r)" by simp
  then have "reconcile_dates (JObj C) = Inr (fst r, snd r)"
    using assms(2) by (simp add: try_extract_def)
  then have "dict_get (snd r) k = dict_get C k"
    using assms(4,5) by (rule reconcile_dates_keys)
  then show ?thesis
    using assms(1) extract_Inr[OF t, of s] by (simp add: apply_update_def no_update_def)
qed

text \<open>
  Claim C1, as amended. The node does not merge: the \<open>extracted_data\<close> it stores is
  determined by the collaborator's answer alone, whatever the state held before. After
  a successful extraction of an answer that decodes to the record \<open>C\<close>, every field
  other than nights and check-out has the value \<open>C\<close> gives it, so a field that is null
  or absent in \<open>C\<close> is null afterwards and an existing value stays only when \<open>C\<close>
  repeats it. (Keeping existing values is asked of the collaborator in the prompt.)
\<close>

theorem extracted_data_is_the_candidate:
  "extracted_data (apply_update s (snd (extract_data_node loads model s)))
     = extracted_data (apply_update t (snd (extract_data_node loads model t)))
   \<and> (\<forall>c C k. model = Some (Content c) \<and> loads (clean_response c) = Inr (JObj C)
         \<and> status (apply_update s (snd (extract_data_node loads model s))) = ''extracted''
         \<and> k \<noteq> ''jumlah_malam'' \<and> k \<noteq> ''tanggal_checkout''
       \<longrightarrow> dict_get (extracted_data (apply_update s (snd (extract_data_node loads model s)))) k
           = dict_get C k)"
  using extract_data_independent extract_candidate_fields by blast

theorem extracted_data_is_the_candidate_witness:
  "status (apply_update example_state
      (snd (extract_data_node (decodes_to (JObj guests_only_reply)) (Some (Content ''{jumlah_tamu: 2}''))
              example_state))) = ''extracted''
   \<and> dict_get (extracted_data (apply_update example_state
      (snd (extract_data_node (decodes_to (JObj guests_only_reply)) (Some (Content ''{jumlah_tamu: 2}''))
              example_state)))) ''jumlah_tamu'' = dict_get guests_only_reply ''jumlah_tamu''
   \<and> dict_get (extracted_data (apply_update example_state
      (snd (extract_data_node (decodes_to (JObj guests_only_reply)) (Some (Content ''{jumlah_tamu: 2}''))
              example_state)))) ''lokasi'' = dict_get guests_only_reply ''lokasi''
   \<and> extracted_data (apply_update example_state
      (snd (extract_data_node (decodes_to (JObj guests_only_reply)) (Some (Content ''{jumlah_tamu: 2}''))
              example_state)))
     = extracted_data (apply_update (initial_state ''hotel'')
      (snd (extract_data_node (decodes_to (JObj guests_only_reply)) (Some (Content ''{jumlah_tamu: 2}''))
              (initial_state ''hotel''))))"
proof -
  let ?loads = "decodes_to (JObj guests_only_reply)"
  let ?model = "Some (Content ''{jumlah_tamu: 2}'')"
  let ?s' = "apply_update example_state (snd (extract_data_node ?loads ?model example_state))"
  have st: "status ?s' = ''extracted''"
    by code_simp
  have l: "?loads (clean_response ''{jumlah_tamu: 2}'') = Inr (JObj guests_only_reply)"
    by (simp add: decodes_to_def)
  note t = extracted_data_is_the_candidate
             [of example_state ?loads ?model "initial_state ''hotel''"]
  have a: "extracted_data ?s'
     = extracted_data (apply_update (initial_state ''hotel'')
         (snd (extract_data_node ?loads ?model (initial_state ''hotel''))))"
    using t by (rule conjunct1)
  have b: "\<forall>c C k. ?model = Some (Content c) \<and> ?loads (clean_response c) = Inr (JObj C)
         \<and> status ?s' = ''extracted''
         \<and> k \<noteq> ''jumlah_malam'' \<and> k \<noteq> ''tanggal_checkout''
       \<longrightarrow> dict_get (extracted_data ?s') k = dict_get C k"
    using t by (rule conjunct2)
  have b1: "dict_get (extracted_data ?s') ''jumlah_tamu'' = dict_get guests_only_reply ''jumlah_tamu''"
  proof (rule b[rule_format, where c="''{jumlah_tamu: 2}''"])
    show "?model = Some (Content ''{jumlah_tamu: 2}'')
         \<and> ?loads (clean_response ''{jumlah_tamu: 2}'') = Inr (JObj guests_only_reply)
         \<and> status ?s' = ''extracted''
         \<and> ''jumlah_tamu'' \<noteq> ''jumlah_malam'' \<and> ''jumlah_tamu'' \<noteq> ''tanggal_checkout''"
      by (intro conjI refl l st) simp_all
  qed
  have b2: "dict_get (extracted_data ?s') ''lokasi'' = dict_get guests_only_reply ''lokasi''"
  proof (rule b[rule_format, where c="''{jumlah_tamu: 2}''"])
    show "?model = Some (Content ''{jumlah_tamu: 2}'')
         \<and> ?loads (clean_response ''{jumlah_tamu: 2}'') = Inr (JObj guests_only_reply)
         \<and> status ?s' = ''extracted''
         \<and> ''lokasi'' \<noteq> ''jumlah_malam'' \<and> ''lokasi'' \<noteq> ''tanggal_checkout''"
      by (intro conjI refl l st) simp_all
  qed
  show ?thesis by (intro conjI st b1 b2 a)
qed

text \<open>
  The claim as stated fails: the state holds the location \<open>Ubud\<close>, the answer only
  gives the number of guests, and after the extraction the location is null.
\<close>

theorem merge_clears_field_counterexample:
  "dict_get (extracted_data example_state) ''lokasi'' = JStr ''Ubud''
   \<and> dict_get guests_only_reply ''lokasi'' = JNull
   \<and> dict_get (extracted_data (apply_update example_state
        (snd (extract_data_node (decodes_to (JObj guests_only_reply))
                (Some (Content ''{jumlah_tamu: 2}'')) example_state)))) ''lokasi'' = JNull
   \<and> dict_get (extracted_data (apply_update example_state
        (snd (extract_data_node (decodes_to (JObj guests_only_reply))
                (Some (Content ''{jumlah_tamu: 2}'')) example_state)))) ''lokasi''
      \<noteq> dict_get (extracted_data example_state) ''lokasi''"
  by code_simp

section \<open>The date handling\<close>

text \<open>
  Claim C7, as amended. When check-in and check-out are both given and well-formed and
  check-out is not after check-in, the node stores the decoded record as it is (nights
  and both dates untouched), prints the warning on the console, raises nothing and
  ends as a successful extraction: the messages gain the usual extraction entry and no
  warning.
\<close>

theorem invalid_range_keeps_record:
  assumes "model = Some (Content c)" and "loads (clean_response c) = Inr (JObj C)"
      and "dict_get C ''tanggal_checkin'' = JStr a" and "strptime a = Some checkin"
      and "dict_get C ''tanggal_checkout'' = JStr b" and "strptime b = Some checkout"
      and "date_le checkout checkin"
  shows "extract_data_node loads model s =
           ([emoji_robot @ '' Node: Ekstraksi data dengan Gemini...'', warn_checkout_invalid],
            no_update\<lparr>upd_extracted_data := Some C,
                      upd_iteration_count := Some (iteration_count s + 1),
                      upd_status := Some ''extracted'',
                      upd_messages :=
                        Some (messages s @ [emoji_check @ '' Data diekstrak (iterasi ''
                                            @ str_int (iteration_count s + 1) @ '')''])\<rparr>)"
proof -
  have "both_dates C = Inr ([warn_checkout_invalid], C)"
    using assms(3-7) strptime_value_Some by (simp add: both_dates_def)
  moreover have "truthy (dict_get C ''tanggal_checkin'')" "truthy (dict_get C ''tanggal_checkout'')"
    using assms(3-6) strptime_value_Some by auto
  ultimately have "reconcile_dates (JObj C) = Inr ([warn_checkout_invalid], C)"
    by (simp add: reconcile_dates_def)
  then have "try_extract loads (Content c) = Inr ([warn_checkout_invalid], C)"
    using assms(2) by (simp add: try_extract_def)
  then show ?thesis using assms(1) by (simp add: extract_data_node_def)
qed

theorem invalid_range_keeps_record_witness:
  "extract_data_node (decodes_to (JObj reversed_dates_reply)) (Some (Content ''{}'')) example_state =
     ([emoji_robot @ '' Node: Ekstraksi data dengan Gemini...'', warn_checkout_invalid],
      no_update\<lparr>upd_extracted_data := Some reversed_dates_reply,
                upd_iteration_count := Some (iteration_count example_state + 1),
                upd_status := Some ''extracted'',
                upd_messages :=
                  Some (messages example_state
                        @ [emoji_check @ '' Data diekstrak (iterasi ''
                           @ str_int (iteration_count example_state + 1) @ '')''])\<rparr>)
   \<and> dict_get reversed_dates_reply ''jumlah_malam'' = JInt 3"
proof -
  have l: "decodes_to (JObj reversed_dates_reply) (clean_response ''{}'')
             = Inr (JObj reversed_dates_reply)"
    by (simp add: decodes_to_def)
  have ci: "dict_get reversed_dates_reply ''tanggal_checkin'' = JStr ''2025-06-25''" by code_simp
  have co: "dict_get reversed_dates_reply ''tanggal_checkout'' = JStr ''2025-06-20''" by code_simp
  have pi: "strptime ''2025-06-25'' = Some (Date 2025 6 25)" by code_simp
  have po: "strptime ''2025-06-20'' = Some (Date 2025 6 20)" by code_simp
  have le: "date_le (Date 2025 6 20) (Date 2025 6 25)" by code_simp
  have n: "dict_get reversed_dates_reply ''jumlah_malam'' = JInt 3" by code_simp
  from invalid_range_keeps_record[where model="Some (Content ''{}'')" and c="''{}''" and s=example_state
          and loads="decodes_to (JObj reversed_dates_reply)" and C=reversed_dates_reply, OF refl l ci pi co po le] n
  show ?thesis by simp
qed

text \<open>
  The claim as stated fails where it says that a warning is appended: with check-out
  five days before check-in the messages of the new state are the extraction entry
  alone; the warning is among the printed lines only.
\<close>

theorem warning_not_in_messages_counterexample:
  "messages (apply_update (initial_state ''hotel 25-20 juni'')
      (snd (extract_data_node (decodes_to (JObj reversed_dates_reply)) (Some (Content ''{}''))
              (initial_state ''hotel 25-20 juni''))))
     = [emoji_check @ '' Data diekstrak (iterasi 1)'']
   \<and> warn_checkout_invalid \<notin> set (messages (apply_update (initial_state ''hotel 25-20 juni'')
      (snd (extract_data_node (decodes_to (JObj reversed_dates_reply)) (Some (Content ''{}''))
              (initial_state ''hotel 25-20 juni'')))))
   \<and> fst (extract_data_node (decodes_to (JObj reversed_dates_reply)) (Some (Content ''{}''))
              (initial_state ''hotel 25-20 juni''))
     = [emoji_robot @ '' Node: Ekstraksi data dengan Gemini...'', warn_checkout_invalid]"
  by code_simp

subsection \<open>Calendar arithmetic\<close>





















subsection \<open>Derived check-out\<close>



text \<open>
  The claim as stated fails for zero nights, a value the collaborator's contract admits:
  check-in and nights are both given and check-out is not, yet the node derives no
  check-out and the stored record has no such key.
\<close>

theorem zero_nights_derives_nothing_counterexample:
  "extract_data_node (decodes_to (JObj zero_nights_reply)) (Some (Content zero_nights_answer))
     example_state =
     ([emoji_robot @ '' Node: Ekstraksi data dengan Gemini...''],
      no_update\<lparr>upd_extracted_data :=
                  Some [(''tanggal_checkin'', JStr ''2025-06-20''), (''jumlah_malam'', JInt 0)],
                upd_iteration_count := Some 2,
                upd_status := Some ''extracted'',
                upd_messages :=
                  Some (messages example_state @ [emoji_check @ '' Data diekstrak (iterasi 2)''])\<rparr>)
   \<and> map_of [(''tanggal_checkin'', JStr ''2025-06-20''), (''jumlah_malam'', JInt 0)]
        ''tanggal_checkout'' = None"
  by code_simp

end
